theory Spec2Isabelle
  imports Complex_Main "HOL-Library.Multiset"
begin

section \<open>Shared request and response model\<close>

text \<open>
  The handlers are Express routes over a Prisma client. A handler is modelled as a
  function from the request (bearer credential, route parameters, body), the clock and
  the tables it touches to the HTTP reply and the tables afterwards.

  Conventions of the model:
  \<^item> a JSON field that may be absent is an \<open>option\<close>; \<open>None\<close> is \<open>undefined\<close>;
  \<^item> request fields carry the type of the column they are written to
    (\<open>INTEGER\<close> as \<open>int\<close>, \<open>TEXT\<close> as \<open>string\<close>);
  \<^item> \<open>DOUBLE PRECISION\<close> values are exact rationals, rounding is not modelled;
  \<^item> timestamps are integers (milliseconds);
  \<^item> JavaScript truthiness is written out: \<open>undefined\<close>, \<open>0\<close> and the empty string are falsy.
\<close>

datatype 'a body = Message string | Error string | Payload 'a

type_synonym 'a response = "nat \<times> 'a body"

text \<open>
  The claims of a verified JSON web token: \<open>id\<close> and \<open>businessId\<close> are the ones the handlers
  read; \<open>customerId\<close> is the one the customer login (food.ts) signs into its tokens, next
  to \<open>email\<close> and \<open>businessId\<close>. No login route of the repository signs an \<open>id\<close>.
\<close>

record token_payload =
  tp_id :: "int option"
  tp_customerId :: "int option"
  tp_businessId :: "int option"

text \<open>
  The \<open>Authorization\<close> header as \<open>jwt.verify\<close> sees it: no bearer credential, a credential
  that fails verification, or a verified payload.
\<close>

datatype bearer = NoBearer | BadToken | Verified token_payload

text \<open>\<open>authenticateBusinessOwnerJWT\<close> (authenticateJWT.ts): reply or pass the payload on.\<close>

definition authenticateBusinessOwnerJWT :: "bearer \<Rightarrow> 'a response + token_payload" where
  "authenticateBusinessOwnerJWT auth =
     (case auth of
        NoBearer \<Rightarrow> Inl (401, Error ''Authorization token missing'')
      | BadToken \<Rightarrow> Inl (403, Error ''Invalid or expired token'')
      | Verified p \<Rightarrow> Inr p)"

definition truthy_num :: "'a::zero option \<Rightarrow> bool" where
  "truthy_num v = (case v of None \<Rightarrow> False | Some n \<Rightarrow> n \<noteq> 0)"

definition truthy_str :: "string option \<Rightarrow> bool" where
  "truthy_str v = (case v of None \<Rightarrow> False | Some s \<Rightarrow> s \<noteq> [])"

text \<open>
  The range of an \<open>INTEGER\<close> column (and of a Prisma \<open>Int\<close>). A write of a value outside it
  makes the Prisma call reject.
\<close>

definition int4 :: "int \<Rightarrow> bool" where
  "int4 n = (- 2147483648 \<le> n \<and> n \<le> 2147483647)"

section \<open>Persistent store (migration.sql)\<close>

text \<open>
  The tables the order engine and the table view touch, with the columns the handlers
  read or write. Rows are kept in insertion order. Serial primary keys of orders and
  order items come from the counters \<open>next_order_id\<close> and \<open>next_item_id\<close>.
\<close>

record customer =
  cu_id :: int
  cu_businessId :: int
  cu_totalOrders :: int
  cu_totalMoneySpent :: rat
  cu_points :: int

text \<open>
  The product metadata is free-form JSON, so \<open>metadata.ingredients\<close> can be anything. The
  model keeps what the inventory loop of the create handler distinguishes.

  The \<open>name\<close> of an entry is passed to Prisma as a filter: \<open>undefined\<close> drops the filter,
  a string filters by it, anything else makes the call reject.
\<close>

datatype name_field = NameMissing | NameText string | NameInvalid

text \<open>
  An entry read as an object: \<open>ing_quantity\<close> is \<open>Number(ing.quantity)\<close>, \<open>None\<close> when that is
  \<open>NaN\<close> (as it is for an entry that is a number, a string or a boolean).
\<close>

record ingredient =
  ing_name :: name_field
  ing_quantity :: "rat option"

text \<open>An entry that is \<open>null\<close> makes \<open>ing.quantity\<close> throw.\<close>

datatype ingredient_entry = NullEntry | Entry ingredient

text \<open>
  What \<open>metadataObj?.ingredients || []\<close> resolves to: nothing to iterate (metadata missing
  or unparseable, field missing or falsy), an array of entries, or a truthy value that is
  not iterable, on which \<open>for (const ing of ingredients)\<close> throws.
\<close>

datatype ingredients_field = NoIngredients | IngredientArray "ingredient_entry list" | NotIterable

record product =
  p_id :: int
  p_businessId :: int
  p_name :: string
  p_price :: rat
  p_ingredients :: ingredients_field

record inventory_item =
  inv_id :: int
  inv_name :: string
  inv_quantity :: rat
  inv_businessId :: int

record order_item =
  oi_id :: int
  oi_orderId :: int
  oi_productId :: int
  oi_quantity :: int
  oi_price :: rat
  oi_name :: string
  oi_status :: string

record order_row =
  o_id :: int
  o_businessId :: int
  o_customerId :: "int option"
  o_tableNumber :: int
  o_totalAmount :: "rat option"
  o_paymentMethod :: string
  o_estimatedTime :: "string option"
  o_status :: string
  o_createdAt :: int

record table_row =
  t_id :: int
  t_tableNumber :: int
  t_businessId :: int
  t_isBooked :: bool

record store =
  businesses :: "int list"
  customers :: "customer list"
  products :: "product list"
  inventory :: "inventory_item list"
  orders :: "order_row list"
  order_items :: "order_item list"
  tables :: "table_row list"
  next_order_id :: int
  next_item_id :: int

definition find_order :: "int \<Rightarrow> store \<Rightarrow> order_row option" where
  "find_order orderId s = find (\<lambda>row. o_id row = orderId) (orders s)"

text \<open>The rows that \<open>include: { items: true }\<close> attaches to an order.\<close>

definition items_of :: "int \<Rightarrow> store \<Rightarrow> order_item list" where
  "items_of orderId s = filter (\<lambda>it. oi_orderId it = orderId) (order_items s)"

definition find_customer :: "int \<Rightarrow> store \<Rightarrow> customer option" where
  "find_customer cid s = find (\<lambda>cu. cu_id cu = cid) (customers s)"

definition find_product :: "int \<Rightarrow> store \<Rightarrow> product option" where
  "find_product pid s = find (\<lambda>pr. p_id pr = pid) (products s)"

section \<open>Order engine\<close>

subsection \<open>Order identifiers\<close>

definition digit_char :: "nat \<Rightarrow> char" where
  "digit_char d = ''0123456789'' ! d"

text \<open>\<open>Number.prototype.toString\<close> on an integer: its decimal numeral.\<close>

function toString_nat :: "nat \<Rightarrow> string" where
  "toString_nat n =
     (if n < 10 then [digit_char n] else toString_nat (n div 10) @ [digit_char (n mod 10)])"
  by pat_completeness auto
termination
  by (relation "measure id") auto

declare toString_nat.simps [simp del]

definition toString :: "int \<Rightarrow> string" where
  "toString n = (if n < 0 then CHR ''-'' # toString_nat (nat (- n)) else toString_nat (nat n))"

text \<open>\<open>String.prototype.padStart\<close> with a one-character filler.\<close>

definition padStart :: "nat \<Rightarrow> char \<Rightarrow> string \<Rightarrow> string" where
  "padStart targetLength c str = replicate (targetLength - length str) c @ str"

definition format_order_id :: "int \<Rightarrow> string" where
  "format_order_id n = ''ORD'' @ padStart 5 CHR ''0'' (toString n)"

subsection \<open>Status derivation\<close>

text \<open>
  The expression every recomputing path uses:
  \<open>items.every(item => item.status === "Completed") && items.length > 0\<close>.
\<close>

definition derive_status :: "order_item list \<Rightarrow> string" where
  "derive_status its =
     (if list_all (\<lambda>it. oi_status it = ''Completed'') its \<and> length its > 0
      then ''Completed'' else ''Pending'')"

subsection \<open>Prisma writes\<close>

record cart_item =
  cart_productId :: int
  cart_quantity :: int
  cart_price :: rat
  cart_name :: string
  cart_status :: "string option"

text \<open>
  The nested \<open>items: { create: cart_items.map(...) }\<close>: one row per cart entry, in order,
  with consecutive serial ids; \<open>st\<close> gives the status each row is written with.
\<close>

fun mk_items :: "int \<Rightarrow> int \<Rightarrow> (cart_item \<Rightarrow> string) \<Rightarrow> cart_item list \<Rightarrow> order_item list" where
  "mk_items orderId nid st [] = []"
| "mk_items orderId nid st (ci # rest) =
     \<lparr>oi_id = nid, oi_orderId = orderId, oi_productId = cart_productId ci,
      oi_quantity = cart_quantity ci, oi_price = cart_price ci, oi_name = cart_name ci,
      oi_status = st ci\<rparr> # mk_items orderId (nid + 1) st rest"

text \<open>
  The foreign keys of \<open>orders\<close> and \<open>order_items\<close>. A write that violates one makes the
  Prisma call reject, and the nested create is one transaction, so nothing is written.
\<close>

definition products_exist :: "store \<Rightarrow> cart_item list \<Rightarrow> bool" where
  "products_exist s cart = list_all (\<lambda>ci. find_product (cart_productId ci) s \<noteq> None) cart"

definition order_refs_exist :: "store \<Rightarrow> int \<Rightarrow> int option \<Rightarrow> cart_item list \<Rightarrow> bool" where
  "order_refs_exist s businessId customerId cart =
     (businessId \<in> set (businesses s)
      \<and> (case customerId of None \<Rightarrow> True | Some c \<Rightarrow> find_customer c s \<noteq> None)
      \<and> products_exist s cart)"

text \<open>The \<open>INTEGER\<close> columns an order write fills from the request.\<close>

definition cart_ints_fit :: "cart_item list \<Rightarrow> bool" where
  "cart_ints_fit cart =
     list_all (\<lambda>ci. int4 (cart_productId ci) \<and> int4 (cart_quantity ci)) cart"

definition order_ints_fit :: "int \<Rightarrow> int option \<Rightarrow> int \<Rightarrow> cart_item list \<Rightarrow> bool" where
  "order_ints_fit businessId customerId tableNumber cart =
     (int4 businessId
      \<and> (case customerId of None \<Rightarrow> True | Some c \<Rightarrow> int4 c)
      \<and> int4 tableNumber
      \<and> cart_ints_fit cart)"

definition customer_ints_fit :: "customer \<Rightarrow> bool" where
  "customer_ints_fit cu = (int4 (cu_totalOrders cu) \<and> int4 (cu_points cu))"

text \<open>
  \<open>prisma.customer.update({ where: { id }, data })\<close>; \<open>None\<close> when the call rejects: no such
  row, or a counter that leaves the range of its \<open>INTEGER\<close> column.
\<close>

definition update_customer :: "int \<Rightarrow> (customer \<Rightarrow> customer) \<Rightarrow> store \<Rightarrow> store option" where
  "update_customer cid f s =
     (case find_customer cid s of
        None \<Rightarrow> None
      | Some cu \<Rightarrow>
          if customer_ints_fit (f cu)
          then Some (s\<lparr>customers := map (\<lambda>cu. if cu_id cu = cid then f cu else cu) (customers s)\<rparr>)
          else None)"

text \<open>\<open>prisma.order.update({ where: { id }, data })\<close> on the header columns.\<close>

definition update_order :: "int \<Rightarrow> (order_row \<Rightarrow> order_row) \<Rightarrow> store \<Rightarrow> store" where
  "update_order orderId f s =
     s\<lparr>orders := map (\<lambda>row. if o_id row = orderId then f row else row) (orders s)\<rparr>"

text \<open>\<open>prisma.orderItem.updateMany({ where, data: { status } })\<close>; \<open>undefined\<close> writes nothing.\<close>

definition updateMany_item_status :: "(order_item \<Rightarrow> bool) \<Rightarrow> string option \<Rightarrow> store \<Rightarrow> store" where
  "updateMany_item_status sel st s =
     (case st of
        None \<Rightarrow> s
      | Some v \<Rightarrow> s\<lparr>order_items := map (\<lambda>it. if sel it then it\<lparr>oi_status := v\<rparr> else it) (order_items s)\<rparr>)"

subsection \<open>POST / : create order\<close>

record create_body =
  cb_businessId :: "int option"
  cb_table_number :: "int option"
  cb_cart_items :: "cart_item list option"
  cb_total_amount :: "rat option"
  cb_payment_method :: "string option"
  cb_estimated_time :: "string option"
  cb_pointsUsed :: "int option"

record created_payload =
  cr_order_id :: string
  cr_table_number :: int
  cr_status :: string
  cr_message :: string
  cr_estimated_time :: "string option"
  cr_created_at :: int
  cr_items :: "order_item list"

text \<open>
  The optional credential: \<open>customerId = decoded.id\<close> when the header verifies, otherwise
  the order goes on as a guest order.
\<close>

definition customer_of_bearer :: "bearer \<Rightarrow> int option" where
  "customer_of_bearer auth = (case auth of Verified p \<Rightarrow> tp_id p | _ \<Rightarrow> None)"

text \<open>
  \<open>prisma.order.create\<close> with the nested item rows; \<open>None\<close> when the call rejects: a
  reference that does not exist, or an integer outside the range of its column.
\<close>

definition prisma_order_create ::
  "int \<Rightarrow> int \<Rightarrow> int option \<Rightarrow> rat \<Rightarrow> string \<Rightarrow> string \<Rightarrow> cart_item list \<Rightarrow> int \<Rightarrow> store
     \<Rightarrow> (order_row \<times> order_item list \<times> store) option" where
  "prisma_order_create businessId tableNumber customerId totalAmount pm et cart now s =
     (if \<not> order_refs_exist s businessId customerId cart then None
      else if \<not> order_ints_fit businessId customerId tableNumber cart then None
      else
        let order = \<lparr>o_id = next_order_id s, o_businessId = businessId,
                     o_customerId = customerId, o_tableNumber = tableNumber,
                     o_totalAmount = Some totalAmount, o_paymentMethod = pm,
                     o_estimatedTime = Some et, o_status = ''Pending'', o_createdAt = now\<rparr>;
            its = mk_items (next_order_id s) (next_item_id s) (\<lambda>_. ''Pending'') cart
        in Some (order, its,
                 s\<lparr>orders := orders s @ [order], order_items := order_items s @ its,
                   next_order_id := next_order_id s + 1,
                   next_item_id := next_item_id s + int (length cart)\<rparr>))"

text \<open>
  The redemption block: runs for a truthy \<open>customerId\<close> and a positive \<open>pointsUsed\<close>, and
  decrements only when the customer exists and the balance covers the amount. The
  decrement is a Prisma \<open>Int\<close> argument, so the update rejects when it is out of range.
\<close>

definition redeem_points :: "int option \<Rightarrow> int option \<Rightarrow> store \<Rightarrow> store option" where
  "redeem_points customerId pointsUsed s =
     (if truthy_num customerId \<and> truthy_num pointsUsed
         \<and> (case pointsUsed of None \<Rightarrow> False | Some pu \<Rightarrow> pu > 0)
      then
        (case (customerId, pointsUsed) of
           (Some cid, Some pu) \<Rightarrow>
             (case find_customer cid s of
                None \<Rightarrow> Some s
              | Some customer \<Rightarrow>
                  if cu_points customer \<ge> pu
                  then (if int4 pu
                        then update_customer cid (\<lambda>cu. cu\<lparr>cu_points := cu_points cu - pu\<rparr>) s
                        else None)
                  else Some s)
         | _ \<Rightarrow> Some s)
      else Some s)"

text \<open>
  The accrual block: the customer's order count, cumulative spend and points are
  incremented, with one point for every full 100 of the total amount
  (\<open>Math.floor(Number(total_amount) / 100)\<close>). The update rejects when the earned points
  are not a Prisma \<open>Int\<close> or a counter leaves its column's range.
\<close>

definition accrued :: "rat \<Rightarrow> customer \<Rightarrow> customer" where
  "accrued totalAmount cu =
     (let earnedPoints = \<lfloor>totalAmount / 100\<rfloor> in
        cu\<lparr>cu_totalOrders := cu_totalOrders cu + 1,
           cu_totalMoneySpent := cu_totalMoneySpent cu + totalAmount,
           cu_points := cu_points cu + earnedPoints\<rparr>)"

definition accrue_points :: "int option \<Rightarrow> rat \<Rightarrow> store \<Rightarrow> store option" where
  "accrue_points customerId totalAmount s =
     (case customerId of
        None \<Rightarrow> Some s
      | Some cid \<Rightarrow>
          if cid = 0 then Some s
          else if int4 \<lfloor>totalAmount / 100\<rfloor> then update_customer cid (accrued totalAmount) s
          else None)"

text \<open>
  \<open>prisma.inventoryItem.updateMany\<close> decrementing within the tenant, by name when a
  name filter is given.
\<close>

definition decrement_inventory :: "string option \<Rightarrow> int \<Rightarrow> rat \<Rightarrow> store \<Rightarrow> store" where
  "decrement_inventory nm businessId q s =
     s\<lparr>inventory :=
         map (\<lambda>iv. if (case nm of None \<Rightarrow> True | Some n \<Rightarrow> inv_name iv = n)
                       \<and> inv_businessId iv = businessId
                    then iv\<lparr>inv_quantity := inv_quantity iv - q\<rparr> else iv) (inventory s)\<rparr>"

text \<open>
  The inner loop over the ingredients of one cart item. The result is the store reached
  and whether the loop ran to its end; \<open>False\<close> means it threw, which the handler's
  \<open>catch\<close> turns into the 500 reply.
\<close>

fun deduct_ingredients :: "int \<Rightarrow> int \<Rightarrow> ingredient_entry list \<Rightarrow> store \<Rightarrow> bool \<times> store" where
  "deduct_ingredients businessId qty [] s = (True, s)"
| "deduct_ingredients businessId qty (NullEntry # ings) s = (False, s)"
| "deduct_ingredients businessId qty (Entry ing # ings) s =
     (case ing_quantity ing of
        None \<Rightarrow> deduct_ingredients businessId qty ings s
      | Some q \<Rightarrow>
          (case ing_name ing of
             NameInvalid \<Rightarrow> (False, s)
           | NameMissing \<Rightarrow>
               deduct_ingredients businessId qty ings
                 (decrement_inventory None businessId (q * of_int qty) s)
           | NameText nm \<Rightarrow>
               deduct_ingredients businessId qty ings
                 (decrement_inventory (Some nm) businessId (q * of_int qty) s)))"

text \<open>The outer loop over the cart.\<close>

fun deduct_inventory :: "int \<Rightarrow> cart_item list \<Rightarrow> store \<Rightarrow> bool \<times> store" where
  "deduct_inventory businessId [] s = (True, s)"
| "deduct_inventory businessId (item # rest) s =
     (case (case find_product (cart_productId item) s of
              None \<Rightarrow> NoIngredients
            | Some dish \<Rightarrow> p_ingredients dish) of
        NotIterable \<Rightarrow> (False, s)
      | NoIngredients \<Rightarrow> deduct_inventory businessId rest s
      | IngredientArray ingredients \<Rightarrow>
          (case deduct_ingredients businessId (cart_quantity item) ingredients s of
             (True, s') \<Rightarrow> deduct_inventory businessId rest s'
           | (False, s') \<Rightarrow> (False, s')))"

definition create_failed :: "created_payload response" where
  "create_failed = (500, Message ''Server error while creating order'')"

definition create_order ::
  "bearer \<Rightarrow> create_body \<Rightarrow> int \<Rightarrow> store \<Rightarrow> created_payload response \<times> store" where
  "create_order auth b now s =
     (let customerId = customer_of_bearer auth in
      if \<not> truthy_num (cb_businessId b) then ((400, Message ''Missing business ID''), s)
      else if \<not> truthy_num (cb_table_number b) \<or> cb_cart_items b = None
              \<or> \<not> truthy_num (cb_total_amount b) \<or> \<not> truthy_str (cb_payment_method b)
              \<or> \<not> truthy_str (cb_estimated_time b)
      then ((400, Message ''Missing required fields''), s)
      else
        (case (cb_businessId b, cb_table_number b, cb_cart_items b, cb_total_amount b,
               cb_payment_method b, cb_estimated_time b) of
           (Some businessId, Some table_number, Some cart_items, Some total_amount,
            Some payment_method, Some estimated_time) \<Rightarrow>
             if cart_items = []
             then ((400, Message ''Cart items must be a non-empty array''), s)
             else
               (case prisma_order_create businessId table_number customerId total_amount
                       payment_method estimated_time cart_items now s of
                  None \<Rightarrow> (create_failed, s)
                | Some (order, its, s1) \<Rightarrow>
                    (case redeem_points customerId (cb_pointsUsed b) s1 of
                       None \<Rightarrow> (create_failed, s1)
                     | Some s2 \<Rightarrow>
                         (case accrue_points customerId total_amount s2 of
                            None \<Rightarrow> (create_failed, s2)
                          | Some s3 \<Rightarrow>
                              (case deduct_inventory businessId cart_items s3 of
                                 (False, s4) \<Rightarrow> (create_failed, s4)
                               | (True, s4) \<Rightarrow>
                                   ((201, Payload
                                      \<lparr>cr_order_id = format_order_id (o_id order),
                                       cr_table_number = o_tableNumber order,
                                       cr_status = o_status order,
                                       cr_message = ''Order placed successfully'',
                                       cr_estimated_time = o_estimatedTime order,
                                       cr_created_at = o_createdAt order,
                                       cr_items = its\<rparr>), s4)))))
         | _ \<Rightarrow> ((400, Message ''Missing required fields''), s)))"

subsection \<open>GET /:orderId : fetch one order\<close>

record fetched_payload =
  fe_order_id :: string
  fe_table_number :: int
  fe_total_amount :: "rat option"
  fe_payment_method :: string
  fe_status :: string
  fe_estimated_time :: "string option"
  fe_created_at :: int
  fe_items :: "order_item list"

text \<open>
  The route has no middleware and no tenant filter; the credential is an argument only
  because every request carries one. \<open>orderId\<close> is the parsed route parameter.
\<close>

definition get_order :: "bearer \<Rightarrow> int \<Rightarrow> store \<Rightarrow> fetched_payload response" where
  "get_order auth orderId s =
     (case find_order orderId s of
        None \<Rightarrow> (404, Message ''Order not found'')
      | Some order \<Rightarrow>
          (200, Payload
             \<lparr>fe_order_id = format_order_id (o_id order),
              fe_table_number = o_tableNumber order,
              fe_total_amount = o_totalAmount order,
              fe_payment_method = o_paymentMethod order,
              fe_status = derive_status (items_of orderId s),
              fe_estimated_time = o_estimatedTime order,
              fe_created_at = o_createdAt order,
              fe_items = items_of orderId s\<rparr>))"

subsection \<open>PUT /:orderId : replace the items of an order\<close>

record put_body =
  pb_businessId :: "int option"
  pb_table_number :: "int option"
  pb_cart_items :: "cart_item list option"
  pb_total_amount :: "rat option"
  pb_payment_method :: "string option"
  pb_estimated_time :: "string option"

record updated_payload =
  up_order_id :: string
  up_table_number :: int
  up_total_amount :: "rat option"
  up_payment_method :: string
  up_status :: string
  up_estimated_time :: "string option"
  up_items :: "order_item list"
  up_message :: string

text \<open>\<open>item.status || matched?.status || "Pending"\<close>, with \<open>matched\<close> the first old row of that product.\<close>

definition replaced_status :: "order_item list \<Rightarrow> cart_item \<Rightarrow> string" where
  "replaced_status existingItems ci =
     (if truthy_str (cart_status ci) then (case cart_status ci of Some v \<Rightarrow> v | None \<Rightarrow> ''Pending'')
      else
        (case find (\<lambda>existing. oi_productId existing = cart_productId ci) existingItems of
           None \<Rightarrow> ''Pending''
         | Some matched \<Rightarrow> if oi_status matched \<noteq> [] then oi_status matched else ''Pending''))"

text \<open>The header columns of the update: a field that is \<open>undefined\<close> is left as stored.\<close>

definition put_header :: "put_body \<Rightarrow> order_row \<Rightarrow> order_row" where
  "put_header b row =
     row\<lparr>o_tableNumber := (case pb_table_number b of None \<Rightarrow> o_tableNumber row | Some v \<Rightarrow> v),
         o_totalAmount := (case pb_total_amount b of None \<Rightarrow> o_totalAmount row | Some v \<Rightarrow> Some v),
         o_paymentMethod := (case pb_payment_method b of None \<Rightarrow> o_paymentMethod row | Some v \<Rightarrow> v),
         o_estimatedTime := (case pb_estimated_time b of None \<Rightarrow> o_estimatedTime row | Some v \<Rightarrow> Some v)\<rparr>"

definition put_failed :: "updated_payload response" where
  "put_failed = (500, Message ''Server error while updating order'')"

definition put_forbidden :: "updated_payload response" where
  "put_forbidden = (403, Message ''Not allowed to update this order'')"

text \<open>
  The handler reads no credential: the tenant it compares with is the \<open>businessId\<close> of the
  request body. The old rows are deleted before the new ones are built, so a body
  without \<open>cart_items\<close>, a product the store does not know, or an integer outside the
  range of its column ends in 500 with the old rows gone.
\<close>

definition put_order :: "bearer \<Rightarrow> int \<Rightarrow> put_body \<Rightarrow> store \<Rightarrow> updated_payload response \<times> store" where
  "put_order auth orderId b s =
     (if \<not> truthy_num (pb_businessId b) then ((400, Message ''Missing business ID''), s)
      else
        (case find_order orderId s of
           None \<Rightarrow> (put_forbidden, s)
         | Some existingOrder \<Rightarrow>
             if Some (o_businessId existingOrder) \<noteq> pb_businessId b then (put_forbidden, s)
             else
               let existingItems = items_of orderId s;
                   s1 = s\<lparr>order_items := filter (\<lambda>it. oi_orderId it \<noteq> orderId) (order_items s)\<rparr>
               in
                 (case pb_cart_items b of
                    None \<Rightarrow> (put_failed, s1)
                  | Some cart_items \<Rightarrow>
                      if \<not> products_exist s1 cart_items then (put_failed, s1)
                      else if \<not> cart_ints_fit cart_items then (put_failed, s1)
                      else if \<not> (case pb_table_number b of None \<Rightarrow> True | Some v \<Rightarrow> int4 v)
                      then (put_failed, s1)
                      else
                        let its = mk_items orderId (next_item_id s1)
                                    (replaced_status existingItems) cart_items;
                            updated = put_header b existingOrder;
                            s2 = (update_order orderId (put_header b) s1)
                                   \<lparr>order_items := order_items s1 @ its,
                                    next_item_id := next_item_id s1 + int (length cart_items)\<rparr>
                        in ((200, Payload
                               \<lparr>up_order_id = format_order_id (o_id updated),
                                up_table_number = o_tableNumber updated,
                                up_total_amount = o_totalAmount updated,
                                up_payment_method = o_paymentMethod updated,
                                up_status = ''Pending'',
                                up_estimated_time = o_estimatedTime updated,
                                up_items = its,
                                up_message = ''Order updated successfully''\<rparr>), s2))))"

subsection \<open>Owner routes: order status, item status, complete all\<close>

definition owner_forbidden :: "'a response" where
  "owner_forbidden = (403, Message ''Not allowed to update this order'')"

definition owner_unauthorized :: "'a response" where
  "owner_unauthorized = (401, Message ''Unauthorized: Missing businessId'')"

record status_payload =
  sp_order_id :: string
  sp_status :: string
  sp_message :: string

text \<open>\<open>PATCH /:orderId/status\<close>: writes the status of the body into the order header.\<close>

definition patch_order_status ::
  "bearer \<Rightarrow> int \<Rightarrow> string option \<Rightarrow> store \<Rightarrow> status_payload response \<times> store" where
  "patch_order_status auth orderId status s =
     (case authenticateBusinessOwnerJWT auth of
        Inl r \<Rightarrow> (r, s)
      | Inr p \<Rightarrow>
          if \<not> truthy_num (tp_businessId p) then (owner_unauthorized, s)
          else
            (case find_order orderId s of
               None \<Rightarrow> (owner_forbidden, s)
             | Some existingOrder \<Rightarrow>
                 if Some (o_businessId existingOrder) \<noteq> tp_businessId p then (owner_forbidden, s)
                 else
                   let newStatus = (case status of None \<Rightarrow> o_status existingOrder | Some v \<Rightarrow> v)
                   in ((200, Payload
                          \<lparr>sp_order_id = format_order_id (o_id existingOrder),
                           sp_status = newStatus,
                           sp_message = ''Order status updated successfully''\<rparr>),
                       update_order orderId (\<lambda>row. row\<lparr>o_status := newStatus\<rparr>) s)))"

record item_status_payload =
  ip_message :: string
  ip_productId :: int
  ip_status :: "string option"
  ip_orderStatus :: string

text \<open>
  \<open>PATCH /:orderId/items/:productId/status\<close>: sets the status of every row of the order
  with that product, re-reads the order and stores the derived status.
\<close>

definition patch_item_status ::
  "bearer \<Rightarrow> int \<Rightarrow> int \<Rightarrow> string option \<Rightarrow> store \<Rightarrow> item_status_payload response \<times> store" where
  "patch_item_status auth orderId productId status s =
     (case authenticateBusinessOwnerJWT auth of
        Inl r \<Rightarrow> (r, s)
      | Inr p \<Rightarrow>
          if \<not> truthy_num (tp_businessId p) then (owner_unauthorized, s)
          else
            (case find_order orderId s of
               None \<Rightarrow> (owner_forbidden, s)
             | Some existingOrder \<Rightarrow>
                 if Some (o_businessId existingOrder) \<noteq> tp_businessId p then (owner_forbidden, s)
                 else
                   (case find (\<lambda>it. oi_productId it = productId) (items_of orderId s) of
                      None \<Rightarrow> ((404, Message ''Item not found in order''), s)
                    | Some itemToUpdate \<Rightarrow>
                        let s1 = updateMany_item_status
                                   (\<lambda>it. oi_orderId it = orderId \<and> oi_productId it = productId)
                                   status s
                        in
                          (case find_order orderId s1 of
                             None \<Rightarrow> ((404, Message ''Order not found''), s1)
                           | Some updatedOrder \<Rightarrow>
                               let newOrderStatus = derive_status (items_of orderId s1)
                               in ((200, Payload
                                      \<lparr>ip_message = ''Item status updated successfully'',
                                       ip_productId = productId,
                                       ip_status = status,
                                       ip_orderStatus = newOrderStatus\<rparr>),
                                   update_order orderId
                                     (\<lambda>row. row\<lparr>o_status := newOrderStatus\<rparr>) s1)))))"

record complete_payload =
  cp_message :: string
  cp_orderStatus :: string

text \<open>
  \<open>PATCH /:orderId/complete-all\<close>: sets every row of the order to Completed and writes
  Completed into the header, without looking at the rows.
\<close>

definition complete_all ::
  "bearer \<Rightarrow> int \<Rightarrow> store \<Rightarrow> complete_payload response \<times> store" where
  "complete_all auth orderId s =
     (case authenticateBusinessOwnerJWT auth of
        Inl r \<Rightarrow> (r, s)
      | Inr p \<Rightarrow>
          if \<not> truthy_num (tp_businessId p) then (owner_unauthorized, s)
          else
            (case find_order orderId s of
               None \<Rightarrow> (owner_forbidden, s)
             | Some existingOrder \<Rightarrow>
                 if Some (o_businessId existingOrder) \<noteq> tp_businessId p then (owner_forbidden, s)
                 else
                   let s1 = updateMany_item_status (\<lambda>it. oi_orderId it = orderId)
                              (Some ''Completed'') s
                   in ((200, Payload
                          \<lparr>cp_message = ''All items marked as completed successfully'',
                           cp_orderStatus = ''Completed''\<rparr>),
                       update_order orderId (\<lambda>row. row\<lparr>o_status := ''Completed''\<rparr>) s1)))"

subsection \<open>Bill router: order status (billpage.ts)\<close>

text \<open>
  \<open>PUT /orders/:orderId/status\<close> of the bill router, mounted beside the order router: it
  writes the status of the body into the order header and replies with the updated
  row. The tenant of the token is compared as it is, without a separate 401.
\<close>

definition bill_put_order_status ::
  "bearer \<Rightarrow> int \<Rightarrow> string option \<Rightarrow> store \<Rightarrow> order_row response \<times> store" where
  "bill_put_order_status auth orderId status s =
     (case authenticateBusinessOwnerJWT auth of
        Inl r \<Rightarrow> (r, s)
      | Inr p \<Rightarrow>
          (case find_order orderId s of
             None \<Rightarrow> ((403, Error ''Unauthorized to update this order''), s)
           | Some order \<Rightarrow>
               if Some (o_businessId order) \<noteq> tp_businessId p
               then ((403, Error ''Unauthorized to update this order''), s)
               else
                 let updatedOrder =
                       order\<lparr>o_status := (case status of None \<Rightarrow> o_status order | Some v \<Rightarrow> v)\<rparr>
                 in ((200, Payload updatedOrder),
                     update_order orderId
                       (\<lambda>row. row\<lparr>o_status := (case status of None \<Rightarrow> o_status row
                                                     | Some v \<Rightarrow> v)\<rparr>) s)))"

section \<open>Table availability view\<close>

record table_status =
  ts_id :: int
  ts_tableNumber :: int
  ts_status :: string

text \<open>
  \<open>GET /:businessId\<close>, with \<open>businessId\<close> the number read from the route parameter. The
  tables of the tenant come back in ascending table number; the set of booked numbers
  is built from the tenant's orders whose status is not Completed.
\<close>

definition bookedTableNumbers :: "int \<Rightarrow> store \<Rightarrow> int set" where
  "bookedTableNumbers businessId s =
     set (map o_tableNumber
            (filter (\<lambda>row. o_businessId row = businessId \<and> o_status row \<noteq> ''Completed'')
               (orders s)))"

definition allTables :: "int \<Rightarrow> store \<Rightarrow> table_row list" where
  "allTables businessId s =
     sort_key t_tableNumber (filter (\<lambda>t. t_businessId t = businessId) (tables s))"

definition get_tables :: "int \<Rightarrow> store \<Rightarrow> table_status list response" where
  "get_tables businessId s =
     (200, Payload
        (map (\<lambda>t. \<lparr>ts_id = t_id t, ts_tableNumber = t_tableNumber t,
                   ts_status = (if t_tableNumber t \<in> bookedTableNumbers businessId s
                                then ''Booked'' else ''Available'')\<rparr>)
           (allTables businessId s)))"

section \<open>Coupon engine (coupons.ts)\<close>

record coupon =
  c_id :: int
  c_code :: string
  c_businessId :: int
  c_discountType :: string
  c_discountValue :: rat
  c_maxDiscount :: "rat option"
  c_minOrderValue :: rat
  c_validFrom :: int
  c_validTill :: int
  c_usageLimit :: int
  c_usedCount :: int

record validate_body =
  vb_code :: "string option"
  vb_orderTotal :: "rat option"

record coupon_info =
  cinfo_id :: int
  cinfo_code :: string
  cinfo_type :: string
  cinfo_value :: rat

text \<open>
  The two payloads of \<open>POST /validate\<close> that carry data: the success body with the
  discount, and the 400 body whose text embeds the coupon's minimum order value.
\<close>

datatype validate_payload =
    CouponApplied rat coupon_info
  | MinimumOrderValue rat

text \<open>\<open>String.prototype.toUpperCase\<close> on ASCII letters.\<close>

definition upper_char :: "char \<Rightarrow> char" where
  "upper_char c =
     (case map_of (zip ''abcdefghijklmnopqrstuvwxyz'' ''ABCDEFGHIJKLMNOPQRSTUVWXYZ'') c of
        None \<Rightarrow> c
      | Some u \<Rightarrow> u)"

definition toUpperCase :: "string \<Rightarrow> string" where
  "toUpperCase s = map upper_char s"

text \<open>
  \<open>prisma.coupon.findFirst\<close> with the \<open>where\<close> clause of the validate handler. A
  \<open>businessId\<close> that is \<open>undefined\<close> in the payload drops that filter, as Prisma does.
\<close>

definition coupon_matches :: "string \<Rightarrow> int option \<Rightarrow> int \<Rightarrow> coupon \<Rightarrow> bool" where
  "coupon_matches code bid now c =
     (c_code c = toUpperCase code
      \<and> (case bid of None \<Rightarrow> True | Some b \<Rightarrow> c_businessId c = b)
      \<and> c_validFrom c \<le> now \<and> now \<le> c_validTill c)"

definition findFirst_coupon :: "string \<Rightarrow> int option \<Rightarrow> int \<Rightarrow> coupon list \<Rightarrow> coupon option" where
  "findFirst_coupon code bid now cs = find (coupon_matches code bid now) cs"

text \<open>
  The discount block. \<open>coupon.maxDiscount && discount > coupon.maxDiscount\<close> is false for
  a cap that is \<open>null\<close> and for a cap that is \<open>0\<close>.
\<close>

definition compute_discount :: "coupon \<Rightarrow> rat \<Rightarrow> rat" where
  "compute_discount c orderTotal =
     (if c_discountType c = ''flat'' then c_discountValue c
      else if c_discountType c = ''percent'' then
        (let discount = (c_discountValue c / 100) * orderTotal in
           (case c_maxDiscount c of
              None \<Rightarrow> discount
            | Some m \<Rightarrow> if m \<noteq> 0 \<and> discount > m then m else discount))
      else 0)"

definition validate_coupon ::
  "bearer \<Rightarrow> validate_body \<Rightarrow> int \<Rightarrow> coupon list \<Rightarrow> validate_payload response" where
  "validate_coupon auth b now cs =
     (case authenticateBusinessOwnerJWT auth of
        Inl r \<Rightarrow> r
      | Inr p \<Rightarrow>
          (case (vb_code b, vb_orderTotal b) of
             (Some code, Some orderTotal) \<Rightarrow>
               if code = [] \<or> orderTotal = 0 then (400, Error ''Missing required fields'')
               else
                 (case findFirst_coupon code (tp_businessId p) now cs of
                    None \<Rightarrow> (404, Error ''Coupon not found or expired'')
                  | Some c \<Rightarrow>
                      if orderTotal < c_minOrderValue c
                      then (400, Payload (MinimumOrderValue (c_minOrderValue c)))
                      else (200, Payload (CouponApplied (compute_discount c orderTotal)
                              \<lparr>cinfo_id = c_id c, cinfo_code = c_code c,
                               cinfo_type = c_discountType c, cinfo_value = c_discountValue c\<rparr>)))
           | _ \<Rightarrow> (400, Error ''Missing required fields'')))"

section \<open>Plan lifecycle (plan.ts)\<close>

record plan =
  pl_id :: int
  pl_businessId :: int
  pl_name :: string
  pl_expiresAt :: int
  pl_status :: string

definition mapBackendToFrontendStatus :: "string \<Rightarrow> string" where
  "mapBackendToFrontendStatus backendStatus =
     (if backendStatus = ''active'' then ''verified''
      else if backendStatus = ''expired'' \<or> backendStatus = ''cancelled'' then ''unverified''
      else ''pending'')"

text \<open>
  The body of both plan reads: the stored row spread into the reply, with \<open>status\<close>
  overwritten by \<open>updatedStatus\<close>. \<open>isVerified\<close> is sent by the subscription-status route
  only.
\<close>

record plan_view =
  pv_row :: plan
  pv_status :: string
  pv_displayStatus :: string
  pv_isVerified :: "bool option"
  pv_isExpired :: bool

definition find_plan :: "int \<Rightarrow> plan list \<Rightarrow> plan option" where
  "find_plan businessId plans = find (\<lambda>pl. pl_businessId pl = businessId) plans"

text \<open>\<open>prisma.plan.update({ where: { businessId }, data: { status } })\<close>.\<close>

definition update_plan_status :: "int \<Rightarrow> string \<Rightarrow> plan list \<Rightarrow> plan list" where
  "update_plan_status businessId st plans =
     map (\<lambda>pl. if pl_businessId pl = businessId then pl\<lparr>pl_status := st\<rparr> else pl) plans"

text \<open>\<open>GET /subscription/status/:businessId\<close>; the tenant comes from the route parameter.\<close>

definition get_subscription_status ::
  "bearer \<Rightarrow> int \<Rightarrow> int \<Rightarrow> plan list \<Rightarrow> plan_view response \<times> plan list" where
  "get_subscription_status auth businessId currentDate plans =
     (case authenticateBusinessOwnerJWT auth of
        Inl r \<Rightarrow> (r, plans)
      | Inr p \<Rightarrow>
          (case find_plan businessId plans of
             None \<Rightarrow> ((404, Message ''No subscription found''), plans)
           | Some subscription \<Rightarrow>
               let isExpired = pl_expiresAt subscription < currentDate;
                   expire = isExpired \<and> pl_status subscription = ''active'';
                   plans' = (if expire then update_plan_status businessId ''expired'' plans
                             else plans);
                   updatedStatus = (if expire then ''expired'' else pl_status subscription)
               in ((200, Payload \<lparr>pv_row = subscription, pv_status = updatedStatus,
                       pv_displayStatus = mapBackendToFrontendStatus updatedStatus,
                       pv_isVerified = Some (updatedStatus = ''active''),
                       pv_isExpired = isExpired\<rparr>), plans')))"

text \<open>\<open>GET /plan\<close>; the tenant comes from the token.\<close>

definition get_plan ::
  "bearer \<Rightarrow> int \<Rightarrow> plan list \<Rightarrow> plan_view response \<times> plan list" where
  "get_plan auth currentDate plans =
     (case authenticateBusinessOwnerJWT auth of
        Inl r \<Rightarrow> (r, plans)
      | Inr p \<Rightarrow>
          (case tp_businessId p of
             None \<Rightarrow> ((401, Message ''Unauthorized: Business not found in token''), plans)
           | Some businessId \<Rightarrow>
               if businessId = 0
               then ((401, Message ''Unauthorized: Business not found in token''), plans)
               else
                 (case find_plan businessId plans of
                    None \<Rightarrow> ((404, Message ''No plan found''), plans)
                  | Some existingPlan \<Rightarrow>
                      let isExpired = pl_expiresAt existingPlan < currentDate;
                          expire = isExpired \<and> pl_status existingPlan = ''active'';
                          plans' = (if expire then update_plan_status businessId ''expired'' plans
                                    else plans);
                          updatedStatus = (if expire then ''expired'' else pl_status existingPlan)
                      in ((200, Payload \<lparr>pv_row = existingPlan, pv_status = updatedStatus,
                              pv_displayStatus = mapBackendToFrontendStatus updatedStatus,
                              pv_isVerified = None,
                              pv_isExpired = isExpired\<rparr>), plans'))))"

section \<open>Conditions on the store\<close>

text \<open>
  Two conditions under which the side effects of order creation run to their end. They
  are what the handler relies on without checking.

  The metadata of every product of the cart can be iterated: its \<open>ingredients\<close> are
  missing or an array, no entry is \<open>null\<close>, and an entry with a numeric quantity has a
  name that is a string or is missing.
\<close>

definition entry_usable :: "ingredient_entry \<Rightarrow> bool" where
  "entry_usable e =
     (case e of
        NullEntry \<Rightarrow> False
      | Entry ing \<Rightarrow> (case ing_quantity ing of None \<Rightarrow> True | Some q \<Rightarrow> ing_name ing \<noteq> NameInvalid))"

definition ingredients_usable :: "ingredients_field \<Rightarrow> bool" where
  "ingredients_usable fld =
     (case fld of
        NoIngredients \<Rightarrow> True
      | IngredientArray entries \<Rightarrow> list_all entry_usable entries
      | NotIterable \<Rightarrow> False)"

definition metadata_usable :: "store \<Rightarrow> cart_item list \<Rightarrow> bool" where
  "metadata_usable s cart =
     list_all (\<lambda>ci. case find_product (cart_productId ci) s of
                       None \<Rightarrow> True
                     | Some dish \<Rightarrow> ingredients_usable (p_ingredients dish)) cart"

text \<open>
  The counters of the customer the order is attributed to stay within their \<open>INTEGER\<close>
  columns: the balance is not negative, and the order count and the balance still fit
  after the accrual for this total.
\<close>

definition counters_fit :: "rat \<Rightarrow> customer \<Rightarrow> bool" where
  "counters_fit amount cu =
     (0 \<le> cu_points cu \<and> int4 (cu_points cu) \<and> int4 (cu_totalOrders cu)
      \<and> int4 (cu_totalOrders cu + 1) \<and> int4 \<lfloor>amount / 100\<rfloor>
      \<and> int4 (cu_points cu + \<lfloor>amount / 100\<rfloor>))"

definition customer_counters_fit :: "int option \<Rightarrow> rat \<Rightarrow> store \<Rightarrow> bool" where
  "customer_counters_fit customerId amount s =
     (case customerId of
        None \<Rightarrow> True
      | Some cid \<Rightarrow>
          (case find_customer cid s of None \<Rightarrow> True | Some cu \<Rightarrow> counters_fit amount cu))"

section \<open>Reading replies\<close>

text \<open>Projections of a reply, used to state what a handler reports.\<close>

definition table_views :: "table_status list response \<Rightarrow> table_status list" where
  "table_views r = (case snd r of Payload vs \<Rightarrow> vs | _ \<Rightarrow> [])"

definition reported_status :: "plan_view response \<Rightarrow> string option" where
  "reported_status r = (case snd r of Payload v \<Rightarrow> Some (pv_status v) | _ \<Rightarrow> None)"

definition stored_status :: "int \<Rightarrow> plan list \<Rightarrow> string option" where
  "stored_status businessId plans = map_option pl_status (find_plan businessId plans)"

section \<open>Example data\<close>

text \<open>Concrete coupons, plans, tokens and stores at which the results below are instantiated.\<close>

definition zero_cap_coupon :: coupon where
  "zero_cap_coupon =
     \<lparr>c_id = 1, c_code = ''SAVE10'', c_businessId = 1, c_discountType = ''percent'',
      c_discountValue = 10, c_maxDiscount = Some 0, c_minOrderValue = 0,
      c_validFrom = 0, c_validTill = 10, c_usageLimit = 5, c_usedCount = 0\<rparr>"

definition capped_coupon :: coupon where
  "capped_coupon =
     \<lparr>c_id = 2, c_code = ''BIG20'', c_businessId = 1, c_discountType = ''percent'',
      c_discountValue = 20, c_maxDiscount = Some 500, c_minOrderValue = 0,
      c_validFrom = 0, c_validTill = 10, c_usageLimit = 5, c_usedCount = 0\<rparr>"

definition owner1 :: token_payload where
  "owner1 = \<lparr>tp_id = None, tp_customerId = None, tp_businessId = Some 1\<rparr>"

definition stale_plan :: "string \<Rightarrow> plan" where
  "stale_plan st =
     \<lparr>pl_id = 1, pl_businessId = 1, pl_name = ''Monthly'', pl_expiresAt = 5, pl_status = st\<rparr>"

definition demo_tables :: store where
  "demo_tables =
     \<lparr>businesses = [1, 2], customers = [], products = [], inventory = [],
      orders = [\<lparr>o_id = 1, o_businessId = 1, o_customerId = None, o_tableNumber = 4,
                  o_totalAmount = Some 200, o_paymentMethod = ''cash'',
                  o_estimatedTime = Some ''15m'', o_status = ''Pending'', o_createdAt = 0\<rparr>,
                \<lparr>o_id = 2, o_businessId = 1, o_customerId = None, o_tableNumber = 2,
                  o_totalAmount = Some 50, o_paymentMethod = ''cash'',
                  o_estimatedTime = Some ''5m'', o_status = ''Completed'', o_createdAt = 1\<rparr>,
                \<lparr>o_id = 3, o_businessId = 2, o_customerId = None, o_tableNumber = 2,
                  o_totalAmount = Some 50, o_paymentMethod = ''cash'',
                  o_estimatedTime = Some ''5m'', o_status = ''Pending'', o_createdAt = 2\<rparr>],
      order_items = [],
      tables = [\<lparr>t_id = 1, t_tableNumber = 4, t_businessId = 1, t_isBooked = False\<rparr>,
                \<lparr>t_id = 2, t_tableNumber = 2, t_businessId = 1, t_isBooked = True\<rparr>,
                \<lparr>t_id = 3, t_tableNumber = 2, t_businessId = 2, t_isBooked = False\<rparr>],
      next_order_id = 4, next_item_id = 1\<rparr>"

text \<open>A store with one tenant's product, stock and customer, and the order of the spec's scenario.\<close>

definition demo_store :: store where
  "demo_store =
     \<lparr>businesses = [1, 2],
      customers = [\<lparr>cu_id = 7, cu_businessId = 1, cu_totalOrders = 0,
                     cu_totalMoneySpent = 0, cu_points = 3\<rparr>],
      products = [\<lparr>p_id = 1, p_businessId = 1, p_name = ''Thali'', p_price = 120,
                    p_ingredients =
                      IngredientArray [Entry \<lparr>ing_name = NameText ''rice'',
                                               ing_quantity = Some (1 / 2)\<rparr>]\<rparr>],
      inventory = [\<lparr>inv_id = 1, inv_name = ''rice'', inv_quantity = 10, inv_businessId = 1\<rparr>],
      orders = [], order_items = [], tables = [],
      next_order_id = 1, next_item_id = 1\<rparr>"

definition demo_cart :: "cart_item list" where
  "demo_cart = [\<lparr>cart_productId = 1, cart_quantity = 2, cart_price = 100, cart_name = ''X'',
                  cart_status = None\<rparr>]"

definition demo_body :: "int option \<Rightarrow> create_body" where
  "demo_body pointsUsed =
     \<lparr>cb_businessId = Some 1, cb_table_number = Some 4, cb_cart_items = Some demo_cart,
      cb_total_amount = Some 200, cb_payment_method = Some ''cash'',
      cb_estimated_time = Some ''15m'', cb_pointsUsed = pointsUsed\<rparr>"

text \<open>
  The token the customer login signs for the customer of \<open>demo_store\<close>, and a token that
  carries the \<open>id\<close> the create handler looks for.
\<close>

definition login7 :: token_payload where
  "login7 = \<lparr>tp_id = None, tp_customerId = Some 7, tp_businessId = Some 1\<rparr>"

definition customer7 :: token_payload where
  "customer7 = \<lparr>tp_id = Some 7, tp_customerId = None, tp_businessId = Some 1\<rparr>"

definition owner2 :: token_payload where
  "owner2 = \<lparr>tp_id = None, tp_customerId = None, tp_businessId = Some 2\<rparr>"

text \<open>The store after the scenario's order has been placed by a guest at time 0.\<close>

definition demo_item :: "string \<Rightarrow> order_item" where
  "demo_item st =
     \<lparr>oi_id = 1, oi_orderId = 1, oi_productId = 1, oi_quantity = 2, oi_price = 100,
      oi_name = ''X'', oi_status = st\<rparr>"

definition demo_order :: "string \<Rightarrow> order_row" where
  "demo_order st =
     \<lparr>o_id = 1, o_businessId = 1, o_customerId = None, o_tableNumber = 4,
      o_totalAmount = Some 200, o_paymentMethod = ''cash'', o_estimatedTime = Some ''15m'',
      o_status = st, o_createdAt = 0\<rparr>"

definition placed_store :: "string \<Rightarrow> order_item list \<Rightarrow> store" where
  "placed_store st its =
     \<lparr>businesses = [1, 2],
      customers = [\<lparr>cu_id = 7, cu_businessId = 1, cu_totalOrders = 0,
                     cu_totalMoneySpent = 0, cu_points = 3\<rparr>],
      products = [\<lparr>p_id = 1, p_businessId = 1, p_name = ''Thali'', p_price = 120,
                    p_ingredients =
                      IngredientArray [Entry \<lparr>ing_name = NameText ''rice'',
                                               ing_quantity = Some (1 / 2)\<rparr>]\<rparr>],
      inventory = [\<lparr>inv_id = 1, inv_name = ''rice'', inv_quantity = 9, inv_businessId = 1\<rparr>],
      orders = [demo_order st], order_items = its, tables = [],
      next_order_id = 2, next_item_id = 2\<rparr>"

definition demo_put :: "cart_item list option \<Rightarrow> put_body" where
  "demo_put cart =
     \<lparr>pb_businessId = Some 1, pb_table_number = Some 4, pb_cart_items = cart,
      pb_total_amount = Some 200, pb_payment_method = Some ''cash'',
      pb_estimated_time = Some ''15m''\<rparr>"

section \<open>Properties\<close>

subsection \<open>Coupon engine\<close>

text \<open>
  Claim C10. For an authenticated caller, coupon validation answers an order total of
  exactly 0 with 400 "Missing required fields", whatever the code and whatever coupons
  are stored: the reply does not depend on the coupon table, so no lookup decides it.
\<close>

theorem validate_coupon_zero_total:
  "validate_coupon (Verified p) (b\<lparr>vb_orderTotal := Some 0\<rparr>) now cs
     = (400, Error ''Missing required fields'')"
  by (simp add: validate_coupon_def authenticateBusinessOwnerJWT_def split: option.splits)

theorem validate_coupon_zero_total_witness:
  "validate_coupon (Verified owner1) \<lparr>vb_code = Some ''big20'', vb_orderTotal = Some 0\<rparr> 5
     [capped_coupon] = (400, Error ''Missing required fields'')
   \<and> c_minOrderValue capped_coupon = 0
   \<and> coupon_matches ''big20'' (Some 1) 5 capped_coupon"
  using validate_coupon_zero_total
    [of owner1 "\<lparr>vb_code = Some ''big20'', vb_orderTotal = Some 7\<rparr>" 5 "[capped_coupon]"]
  by (simp add: capped_coupon_def coupon_matches_def toUpperCase_def upper_char_def)

text \<open>
  Claim C9. For a redemption that passes validation (reply 200), with \<open>c\<close> the coupon the
  lookup finds: a flat coupon yields its flat value; a percent coupon with a cap other
  than 0 yields the smaller of the percentage of the order total and the cap, so never
  more than the cap; a percent coupon whose cap is absent or 0 yields the percentage of
  the order total, uncapped.
\<close>

theorem validate_coupon_discount:
  assumes "auth = Verified p" "vb_code b = Some code" "vb_orderTotal b = Some orderTotal"
    and "findFirst_coupon code (tp_businessId p) now cs = Some c"
    and "validate_coupon auth b now cs = (200, Payload (CouponApplied d info))"
  shows "(c_discountType c = ''flat'' \<longrightarrow> d = c_discountValue c)
     \<and> (c_discountType c = ''percent'' \<longrightarrow>
          (case c_maxDiscount c of
             None \<Rightarrow> d = c_discountValue c / 100 * orderTotal
           | Some m \<Rightarrow> if m \<noteq> 0 then d = min (c_discountValue c / 100 * orderTotal) m \<and> d \<le> m
                        else d = c_discountValue c / 100 * orderTotal))"
  using assms
  by (auto simp add: validate_coupon_def authenticateBusinessOwnerJWT_def compute_discount_def Let_def
      split: option.splits if_splits)

lemma capped_coupon_found:
  "findFirst_coupon ''big20'' (tp_businessId owner1) 5 [capped_coupon] = Some capped_coupon"
  by (simp add: findFirst_coupon_def coupon_matches_def toUpperCase_def upper_char_def
      capped_coupon_def owner1_def)

lemma capped_coupon_reply:
  "validate_coupon (Verified owner1) \<lparr>vb_code = Some ''big20'', vb_orderTotal = Some 10000\<rparr> 5
     [capped_coupon]
   = (200, Payload (CouponApplied 500
        \<lparr>cinfo_id = 2, cinfo_code = ''BIG20'', cinfo_type = ''percent'', cinfo_value = 20\<rparr>))"
  by (simp add: validate_coupon_def authenticateBusinessOwnerJWT_def capped_coupon_found
      compute_discount_def)
     (simp add: capped_coupon_def)

theorem validate_coupon_discount_witness:
  "validate_coupon (Verified owner1) \<lparr>vb_code = Some ''big20'', vb_orderTotal = Some 10000\<rparr> 5
     [capped_coupon]
   = (200, Payload (CouponApplied 500
        \<lparr>cinfo_id = 2, cinfo_code = ''BIG20'', cinfo_type = ''percent'', cinfo_value = 20\<rparr>))
   \<and> c_discountType capped_coupon = ''percent''
   \<and> c_maxDiscount capped_coupon = Some 500
   \<and> (500::rat) = min (c_discountValue capped_coupon / 100 * 10000) 500"
  using validate_coupon_discount
    [where auth = "Verified owner1" and p = owner1 and code = "''big20''" and orderTotal = 10000
       and b = "\<lparr>vb_code = Some ''big20'', vb_orderTotal = Some 10000\<rparr>"
       and now = 5 and cs = "[capped_coupon]" and c = capped_coupon and d = 500
       and info = "\<lparr>cinfo_id = 2, cinfo_code = ''BIG20'', cinfo_type = ''percent'',
                     cinfo_value = 20\<rparr>"]
    capped_coupon_found capped_coupon_reply
  by (simp add: capped_coupon_def)

text \<open>
  A percent coupon stored with a cap of 0 (the create route stores 0 for the text "0")
  passes validation and yields 10 on a total of 100: more than its cap, and not the
  minimum of the percentage and the cap.
\<close>

theorem validate_coupon_zero_cap_counterexample:
  "validate_coupon (Verified owner1) \<lparr>vb_code = Some ''save10'', vb_orderTotal = Some 100\<rparr> 5
     [zero_cap_coupon]
   = (200, Payload (CouponApplied 10
        \<lparr>cinfo_id = 1, cinfo_code = ''SAVE10'', cinfo_type = ''percent'', cinfo_value = 10\<rparr>))
   \<and> c_discountType zero_cap_coupon = ''percent''
   \<and> c_maxDiscount zero_cap_coupon = Some 0
   \<and> (10::rat) \<noteq> min (c_discountValue zero_cap_coupon / 100 * 100) 0
   \<and> (10::rat) > 0"
  by (simp add: validate_coupon_def authenticateBusinessOwnerJWT_def findFirst_coupon_def
      coupon_matches_def toUpperCase_def upper_char_def compute_discount_def zero_cap_coupon_def
      owner1_def)

subsection \<open>Plan lifecycle\<close>

lemma find_plan_update:
  "find_plan b plans = Some pl \<Longrightarrow>
   find_plan b (update_plan_status b st plans) = Some (pl\<lparr>pl_status := st\<rparr>)"
  by (induction plans) (auto simp: find_plan_def update_plan_status_def)

lemma stored_status_update:
  "find_plan b plans = Some pl \<Longrightarrow> stored_status b (update_plan_status b st plans) = Some st"
  by (simp add: stored_status_def find_plan_update)

text \<open>
  Claim C8. For a plan whose \<open>expiresAt\<close> is earlier than the current time, both reads
  (the current-plan fetch and the subscription-status check) behave alike: a stored
  status \<open>active\<close> is reported as \<open>expired\<close> and stored as \<open>expired\<close> by that read; any
  other stored status (\<open>expired\<close>, \<open>pending\<close>, \<open>cancelled\<close>) is reported as it is and the
  plan table is left unchanged.
\<close>

theorem expired_plan_read:
  assumes "find_plan businessId plans = Some pl" and "pl_expiresAt pl < now"
    and "tp_businessId p = Some businessId" and "businessId \<noteq> 0"
  shows "(pl_status pl = ''active'' \<longrightarrow>
            reported_status (fst (get_plan (Verified p) now plans)) = Some ''expired''
          \<and> stored_status businessId (snd (get_plan (Verified p) now plans)) = Some ''expired''
          \<and> reported_status (fst (get_subscription_status (Verified p) businessId now plans))
              = Some ''expired''
          \<and> stored_status businessId (snd (get_subscription_status (Verified p) businessId now plans))
              = Some ''expired'')
      \<and> (pl_status pl \<noteq> ''active'' \<longrightarrow>
            reported_status (fst (get_plan (Verified p) now plans)) = Some (pl_status pl)
          \<and> snd (get_plan (Verified p) now plans) = plans
          \<and> reported_status (fst (get_subscription_status (Verified p) businessId now plans))
              = Some (pl_status pl)
          \<and> snd (get_subscription_status (Verified p) businessId now plans) = plans)"
  using assms
  by (simp add: get_plan_def get_subscription_status_def authenticateBusinessOwnerJWT_def
      reported_status_def stored_status_update Let_def)

theorem expired_plan_read_witness:
  "find_plan 1 [stale_plan ''active''] = Some (stale_plan ''active'')
   \<and> pl_expiresAt (stale_plan ''active'') < 10
   \<and> reported_status (fst (get_plan (Verified owner1) 10 [stale_plan ''active''])) = Some ''expired''
   \<and> stored_status 1 (snd (get_plan (Verified owner1) 10 [stale_plan ''active''])) = Some ''expired''
   \<and> snd (get_subscription_status (Verified owner1) 1 10 [stale_plan ''active''])
       = [stale_plan ''expired'']"
  using expired_plan_read [of 1 "[stale_plan ''active'']" "stale_plan ''active''" 10 owner1]
  by (simp add: find_plan_def stale_plan_def owner1_def get_subscription_status_def
      authenticateBusinessOwnerJWT_def update_plan_status_def Let_def)

text \<open>
  A plan stored as \<open>pending\<close> whose \<open>expiresAt\<close> (5) lies before the read (10): both reads
  report \<open>pending\<close> and leave the stored status \<open>pending\<close>.
\<close>

theorem expired_pending_plan_counterexample:
  "pl_expiresAt (stale_plan ''pending'') < 10
   \<and> get_plan (Verified owner1) 10 [stale_plan ''pending'']
      = ((200, Payload \<lparr>pv_row = stale_plan ''pending'', pv_status = ''pending'',
            pv_displayStatus = ''pending'', pv_isVerified = None, pv_isExpired = True\<rparr>),
         [stale_plan ''pending''])
   \<and> get_subscription_status (Verified owner1) 1 10 [stale_plan ''pending'']
      = ((200, Payload \<lparr>pv_row = stale_plan ''pending'', pv_status = ''pending'',
            pv_displayStatus = ''pending'', pv_isVerified = Some False, pv_isExpired = True\<rparr>),
         [stale_plan ''pending''])
   \<and> pl_status (stale_plan ''pending'') \<noteq> ''expired''"
  by (simp add: find_plan_def stale_plan_def owner1_def get_plan_def get_subscription_status_def
      authenticateBusinessOwnerJWT_def update_plan_status_def mapBackendToFrontendStatus_def Let_def)

subsection \<open>Table availability view\<close>

lemma sorted_allTables: "sorted (map t_tableNumber (allTables b s))"
  by (simp add: allTables_def)

lemma mset_allTables: "mset (allTables b s) = mset (filter (\<lambda>t. t_businessId t = b) (tables s))"
  by (simp add: allTables_def)

lemma booked_iff:
  "n \<in> bookedTableNumbers b s \<longleftrightarrow>
     (\<exists>row \<in> set (orders s). o_businessId row = b \<and> o_status row \<noteq> ''Completed''
        \<and> o_tableNumber row = n)"
  by (auto simp: bookedTableNumbers_def)

lemma insort_key_map_same:
  assumes "\<And>y. k (g y) = k y"
  shows "insort_key k (g x) (map g xs) = map g (insort_key k x xs)"
  by (induction xs) (simp_all add: assms)

lemma sort_key_map_same:
  assumes "\<And>y. k (g y) = k y"
  shows "sort_key k (map g xs) = map g (sort_key k xs)"
  by (induction xs) (simp_all add: insort_key_map_same [of k g] assms)

lemma allTables_isBooked:
  "allTables b (s\<lparr>tables := map (\<lambda>t. t\<lparr>t_isBooked := f t\<rparr>) (tables s)\<rparr>)
     = map (\<lambda>t. t\<lparr>t_isBooked := f t\<rparr>) (allTables b s)"
proof -
  have "filter (\<lambda>t. t_businessId t = b) (map (\<lambda>t. t\<lparr>t_isBooked := f t\<rparr>) (tables s))
      = map (\<lambda>t. t\<lparr>t_isBooked := f t\<rparr>) (filter (\<lambda>t. t_businessId t = b) (tables s))"
    by (simp add: filter_map comp_def)
  then show ?thesis
    by (simp add: allTables_def sort_key_map_same)
qed

text \<open>
  Claim C5. The table view of a tenant replies 200 with exactly the tenant's tables, in
  ascending table number; a table is marked Booked if and only if some order of that
  tenant with a status other than Completed has its table number, and Available if and
  only if none has. The reply is a function of the table and order rows at the time of
  the read: the stored \<open>isBooked\<close> column has no influence on it.
\<close>

theorem table_view_from_live_orders:
  "fst (get_tables b s) = 200
   \<and> sorted (map ts_tableNumber (table_views (get_tables b s)))
   \<and> mset (map (\<lambda>v. (ts_id v, ts_tableNumber v)) (table_views (get_tables b s)))
       = mset (map (\<lambda>t. (t_id t, t_tableNumber t)) (filter (\<lambda>t. t_businessId t = b) (tables s)))
   \<and> (\<forall>v \<in> set (table_views (get_tables b s)).
         (ts_status v = ''Booked'' \<longleftrightarrow>
            (\<exists>row \<in> set (orders s). o_businessId row = b \<and> o_status row \<noteq> ''Completed''
                 \<and> o_tableNumber row = ts_tableNumber v))
       \<and> (ts_status v = ''Available'' \<longleftrightarrow>
            \<not> (\<exists>row \<in> set (orders s). o_businessId row = b \<and> o_status row \<noteq> ''Completed''
                 \<and> o_tableNumber row = ts_tableNumber v)))
   \<and> get_tables b (s\<lparr>tables := map (\<lambda>t. t\<lparr>t_isBooked := f t\<rparr>) (tables s)\<rparr>) = get_tables b s"
proof -
  have views: "table_views (get_tables b s) =
      map (\<lambda>t. \<lparr>ts_id = t_id t, ts_tableNumber = t_tableNumber t,
                   ts_status = (if t_tableNumber t \<in> bookedTableNumbers b s
                                then ''Booked'' else ''Available'')\<rparr>) (allTables b s)"
    by (simp add: get_tables_def table_views_def)
  have c1: "fst (get_tables b s) = 200" by (simp add: get_tables_def)
  have c2: "sorted (map ts_tableNumber (table_views (get_tables b s)))"
    using sorted_allTables [of b s] by (simp add: views comp_def)
  have "mset (map (\<lambda>v. (ts_id v, ts_tableNumber v)) (table_views (get_tables b s)))
      = image_mset (\<lambda>t. (t_id t, t_tableNumber t)) (mset (allTables b s))"
    by (simp add: views comp_def)
  then have c3: "mset (map (\<lambda>v. (ts_id v, ts_tableNumber v)) (table_views (get_tables b s)))
       = mset (map (\<lambda>t. (t_id t, t_tableNumber t)) (filter (\<lambda>t. t_businessId t = b) (tables s)))"
    by (simp add: mset_allTables)
  have c4: "\<forall>v \<in> set (table_views (get_tables b s)).
         (ts_status v = ''Booked'' \<longleftrightarrow>
            (\<exists>row \<in> set (orders s). o_businessId row = b \<and> o_status row \<noteq> ''Completed''
                 \<and> o_tableNumber row = ts_tableNumber v))
       \<and> (ts_status v = ''Available'' \<longleftrightarrow>
            \<not> (\<exists>row \<in> set (orders s). o_businessId row = b \<and> o_status row \<noteq> ''Completed''
                 \<and> o_tableNumber row = ts_tableNumber v))"
    by (auto simp: views booked_iff)
  have c5: "get_tables b (s\<lparr>tables := map (\<lambda>t. t\<lparr>t_isBooked := f t\<rparr>) (tables s)\<rparr>)
      = get_tables b s"
    by (simp add: get_tables_def allTables_isBooked bookedTableNumbers_def comp_def)
  show ?thesis using c1 c2 c3 c4 c5 by blast
qed

lemma demo_tables_view:
  "get_tables 1 demo_tables =
     (200, Payload [\<lparr>ts_id = 2, ts_tableNumber = 2, ts_status = ''Available''\<rparr>,
                    \<lparr>ts_id = 1, ts_tableNumber = 4, ts_status = ''Booked''\<rparr>])"
  by (simp add: get_tables_def allTables_def bookedTableNumbers_def demo_tables_def)

theorem table_view_from_live_orders_witness:
  "table_views (get_tables 1 demo_tables) =
     [\<lparr>ts_id = 2, ts_tableNumber = 2, ts_status = ''Available''\<rparr>,
      \<lparr>ts_id = 1, ts_tableNumber = 4, ts_status = ''Booked''\<rparr>]
   \<and> sorted (map ts_tableNumber (table_views (get_tables 1 demo_tables)))
   \<and> fst (get_tables 1 demo_tables) = 200"
  using table_view_from_live_orders [of 1 demo_tables] by (simp add: demo_tables_view table_views_def)

subsection \<open>Order identifiers\<close>

lemma toString_nat_digit: "n < 10 \<Longrightarrow> toString_nat n = [digit_char n]"
  by (subst toString_nat.simps) simp

lemma toString_nat_step:
  "10 \<le> n \<Longrightarrow> toString_nat n = toString_nat (n div 10) @ [digit_char (n mod 10)]"
  by (subst toString_nat.simps) simp

lemma length_toString_nat: "10 ^ k \<le> n \<Longrightarrow> k < length (toString_nat n)"
proof (induction k arbitrary: n)
  case 0
  then show ?case by (subst toString_nat.simps) simp
next
  case (Suc k)
  have step: "10 * 10 ^ k \<le> n" using Suc.prems by simp
  then have "10 ^ k \<le> n div 10" by simp
  then have len: "k < length (toString_nat (n div 10))" by (rule Suc.IH)
  have "(10::nat) * 1 \<le> 10 * 10 ^ k" by (rule mult_le_mono2) simp
  with step have "10 \<le> n" by linarith
  with len show ?case by (simp add: toString_nat_step)
qed

lemma digit_char_0: "digit_char 0 = CHR ''0''"
  by (simp add: digit_char_def)

lemma replicate_small:
  "replicate 4 c = [c, c, c, c]" "replicate 3 c = [c, c, c]" "replicate 2 c = [c, c]"
  by (simp_all add: numeral_eq_Suc)

lemma toString_nat_2: "10 \<le> n \<Longrightarrow> n < 100 \<Longrightarrow> toString_nat n = [digit_char (n div 10), digit_char (n mod 10)]"
  by (simp add: toString_nat_step toString_nat_digit)

lemma toString_nat_3:
  assumes "100 \<le> n" "n < 1000"
  shows "toString_nat n = [digit_char (n div 100), digit_char (n div 10 mod 10), digit_char (n mod 10)]"
proof -
  have "10 \<le> n div 10" "n div 10 < 100" using assms by simp_all
  then have "toString_nat (n div 10) = [digit_char (n div 10 div 10), digit_char (n div 10 mod 10)]"
    by (rule toString_nat_2)
  moreover have "n div 10 div 10 = n div 100" by (simp add: div_mult2_eq [symmetric])
  ultimately show ?thesis using assms by (simp add: toString_nat_step [of n])
qed

lemma toString_nat_4:
  assumes "1000 \<le> n" "n < 10000"
  shows "toString_nat n = [digit_char (n div 1000), digit_char (n div 100 mod 10),
           digit_char (n div 10 mod 10), digit_char (n mod 10)]"
proof -
  have "100 \<le> n div 10" "n div 10 < 1000" using assms by simp_all
  then have "toString_nat (n div 10) = [digit_char (n div 10 div 100),
      digit_char (n div 10 div 10 mod 10), digit_char (n div 10 mod 10)]"
    by (rule toString_nat_3)
  moreover have "n div 10 div 10 = n div 100" "n div 10 div 100 = n div 1000"
    by (simp_all add: div_mult2_eq [symmetric])
  ultimately show ?thesis using assms by (simp add: toString_nat_step [of n])
qed

lemma toString_nat_5:
  assumes "10000 \<le> n" "n < 100000"
  shows "toString_nat n = [digit_char (n div 10000), digit_char (n div 1000 mod 10),
           digit_char (n div 100 mod 10), digit_char (n div 10 mod 10), digit_char (n mod 10)]"
proof -
  have "1000 \<le> n div 10" "n div 10 < 10000" using assms by simp_all
  then have "toString_nat (n div 10) = [digit_char (n div 10 div 1000),
      digit_char (n div 10 div 100 mod 10),
      digit_char (n div 10 div 10 mod 10), digit_char (n div 10 mod 10)]"
    by (rule toString_nat_4)
  moreover have "n div 10 div 10 = n div 100" "n div 10 div 100 = n div 1000"
    "n div 10 div 1000 = n div 10000"
    by (simp_all add: div_mult2_eq [symmetric])
  ultimately show ?thesis using assms by (simp add: toString_nat_step [of n])
qed

lemma pad5_small:
  assumes "n < 100000"
  shows "padStart 5 CHR ''0'' (toString_nat n)
     = map digit_char [n div 10000 mod 10, n div 1000 mod 10, n div 100 mod 10, n div 10 mod 10, n mod 10]"
proof -
  consider "n < 10" | "10 \<le> n" "n < 100" | "100 \<le> n" "n < 1000" | "1000 \<le> n" "n < 10000"
    | "10000 \<le> n" "n < 100000"
    using assms by linarith
  then show ?thesis
  proof cases
    case 1
    then show ?thesis
      by (simp add: toString_nat_digit padStart_def digit_char_0 replicate_small)
  next
    case 2
    then show ?thesis
      by (simp add: toString_nat_2 padStart_def digit_char_0 replicate_small)
  next
    case 3
    then show ?thesis
      by (simp add: toString_nat_3 padStart_def digit_char_0 replicate_small)
  next
    case 4
    then show ?thesis
      by (simp add: toString_nat_4 padStart_def digit_char_0)
  next
    case 5
    then show ?thesis
      by (simp add: toString_nat_5 padStart_def)
  qed
qed

lemma pad5_large:
  assumes "100000 \<le> n"
  shows "padStart 5 CHR ''0'' (toString_nat n) = toString_nat n"
proof -
  have "(10::nat) ^ 5 \<le> n" using assms by simp
  then have "5 < length (toString_nat n)" by (rule length_toString_nat)
  then show ?thesis by (simp add: padStart_def)
qed

lemma format_order_id_digits:
  assumes "0 \<le> k"
  shows "format_order_id k =
     (if k < 100000
      then ''ORD'' @ map digit_char [nat k div 10000 mod 10, nat k div 1000 mod 10,
             nat k div 100 mod 10, nat k div 10 mod 10, nat k mod 10]
      else ''ORD'' @ toString_nat (nat k))"
proof (cases "k < 100000")
  case True
  then have "nat k < 100000" by simp
  then show ?thesis using assms True
    by (simp add: format_order_id_def toString_def pad5_small)
next
  case False
  then have "100000 \<le> nat k" by simp
  then show ?thesis using assms False
    by (simp add: format_order_id_def toString_def pad5_large)
qed

subsection \<open>Store updates\<close>

lemma find_map_update:
  assumes "\<And>x. key (f x) = key x"
  shows "find (\<lambda>x. key x = k) (map (\<lambda>x. if key x = j then f x else x) xs)
       = map_option (\<lambda>x. if key x = j then f x else x) (find (\<lambda>x. key x = k) xs)"
  by (induction xs) (simp_all add: assms)

lemma update_customer_found:
  assumes "find_customer cid s = Some cu" and "customer_ints_fit (f cu)"
  shows "update_customer cid f s
       = Some (s\<lparr>customers := map (\<lambda>c. if cu_id c = cid then f c else c) (customers s)\<rparr>)"
  using assms by (simp add: update_customer_def)

lemma find_customer_id: "find_customer cid s = Some cu \<Longrightarrow> cu_id cu = cid"
  by (auto simp: find_customer_def dest: find_Some_iff [THEN iffD1])

lemma find_customer_updated:
  assumes "find_customer cid s = Some cu" and "\<And>c. cu_id (f c) = cu_id c"
  shows "find_customer cid (s\<lparr>customers := map (\<lambda>c. if cu_id c = cid then f c else c) (customers s)\<rparr>)
       = Some (f cu)"
proof -
  have "cu_id cu = cid" using assms(1) by (rule find_customer_id)
  then show ?thesis
    using assms find_map_update [of cu_id f cid cid "customers s"]
    by (simp add: find_customer_def)
qed

lemma decrement_inventory_other [simp]:
  "customers (decrement_inventory nm b q s) = customers s"
  "orders (decrement_inventory nm b q s) = orders s"
  "order_items (decrement_inventory nm b q s) = order_items s"
  "products (decrement_inventory nm b q s) = products s"
  by (simp_all add: decrement_inventory_def)

lemma deduct_ingredients_other [simp]:
  "customers (snd (deduct_ingredients b q ings s)) = customers s"
  "orders (snd (deduct_ingredients b q ings s)) = orders s"
  "order_items (snd (deduct_ingredients b q ings s)) = order_items s"
  "products (snd (deduct_ingredients b q ings s)) = products s"
  by (induction b q ings s rule: deduct_ingredients.induct;
      simp split: option.splits name_field.splits)+

lemma deduct_ingredients_done:
  "list_all entry_usable ings \<Longrightarrow> fst (deduct_ingredients b q ings s) = True"
  by (induction b q ings s rule: deduct_ingredients.induct)
     (auto simp: entry_usable_def split: option.splits name_field.splits)

lemma find_product_same: "products s' = products s \<Longrightarrow> find_product k s' = find_product k s"
  by (simp add: find_product_def)

lemma deduct_ingredients_eq:
  assumes "deduct_ingredients b q ings s = (ok, s')"
  shows "customers s' = customers s \<and> orders s' = orders s
       \<and> order_items s' = order_items s \<and> products s' = products s"
  using deduct_ingredients_other [of b q ings s] assms by simp

lemma deduct_inventory_frame:
  "customers (snd (deduct_inventory b cart s)) = customers s
   \<and> orders (snd (deduct_inventory b cart s)) = orders s
   \<and> order_items (snd (deduct_inventory b cart s)) = order_items s
   \<and> products (snd (deduct_inventory b cart s)) = products s"
proof (induction cart arbitrary: s)
  case Nil
  show ?case by simp
next
  case (Cons item rest)
  show ?case
  proof (cases "case find_product (cart_productId item) s of
              None \<Rightarrow> NoIngredients | Some dish \<Rightarrow> p_ingredients dish")
    case NoIngredients
    then show ?thesis using Cons.IH [of s] by simp
  next
    case (IngredientArray entries)
    obtain ok s' where s': "deduct_ingredients b (cart_quantity item) entries s = (ok, s')"
      by (cases "deduct_ingredients b (cart_quantity item) entries s")
    note fr = deduct_ingredients_eq [OF s']
    show ?thesis
    proof (cases ok)
      case True
      then show ?thesis using IngredientArray s' fr Cons.IH [of s'] by simp
    next
      case False
      then show ?thesis using IngredientArray s' fr by simp
    qed
  next
    case NotIterable
    then show ?thesis by simp
  qed
qed

lemma deduct_inventory_other [simp]:
  "customers (snd (deduct_inventory b cart s)) = customers s"
  "orders (snd (deduct_inventory b cart s)) = orders s"
  "order_items (snd (deduct_inventory b cart s)) = order_items s"
  "products (snd (deduct_inventory b cart s)) = products s"
  using deduct_inventory_frame [of b cart s] by simp_all

lemma metadata_usable_same:
  "products s' = products s \<Longrightarrow> metadata_usable s' cart = metadata_usable s cart"
  by (simp add: metadata_usable_def find_product_def)

lemma deduct_inventory_done:
  "metadata_usable s cart \<Longrightarrow> fst (deduct_inventory b cart s) = True"
proof (induction cart arbitrary: s)
  case Nil
  show ?case by simp
next
  case (Cons item rest)
  from Cons.prems have rest: "metadata_usable s rest"
    by (simp add: metadata_usable_def)
  show ?case
  proof (cases "find_product (cart_productId item) s")
    case None
    then show ?thesis using Cons.IH [OF rest] by simp
  next
    case (Some dish)
    with Cons.prems have usable: "ingredients_usable (p_ingredients dish)"
      by (simp add: metadata_usable_def)
    show ?thesis
    proof (cases "p_ingredients dish")
      case NoIngredients
      then show ?thesis using Some Cons.IH [OF rest] by simp
    next
      case (IngredientArray entries)
      with usable have "list_all entry_usable entries"
        by (simp add: ingredients_usable_def)
      then have ok: "fst (deduct_ingredients b (cart_quantity item) entries s) = True"
        by (rule deduct_ingredients_done)
      obtain s' where s': "deduct_ingredients b (cart_quantity item) entries s = (True, s')"
        using ok by (cases "deduct_ingredients b (cart_quantity item) entries s") simp
      have "products s' = products s" using deduct_ingredients_eq [OF s'] by simp
      then have "metadata_usable s' rest" using rest metadata_usable_same [of s' s rest] by simp
      then have "fst (deduct_inventory b rest s') = True" by (rule Cons.IH)
      then show ?thesis using Some IngredientArray s' by simp
    next
      case NotIterable
      with usable show ?thesis by (simp add: ingredients_usable_def)
    qed
  qed
qed


lemma find_customer_map_None:
  assumes "\<And>c. cu_id (f c) = cu_id c"
  shows "find_customer k (s\<lparr>customers := map (\<lambda>c. if cu_id c = cid then f c else c) (customers s)\<rparr>) = None
       \<longleftrightarrow> find_customer k s = None"
  using find_map_update [of cu_id f k cid "customers s"] assms
  by (simp add: find_customer_def)

lemma update_customer_frame:
  assumes "update_customer cid f s = Some s'" and "\<And>c. cu_id (f c) = cu_id c"
  shows "orders s' = orders s" "order_items s' = order_items s" "products s' = products s"
    "find_customer k s' = None \<longleftrightarrow> find_customer k s = None"
  using assms find_customer_map_None [where f = f and k = k and s = s and cid = cid]
  by (auto simp: update_customer_def split: option.splits if_splits)

lemma redeem_points_frame:
  assumes "redeem_points c pu s = Some s'"
  shows "orders s' = orders s \<and> order_items s' = order_items s \<and> products s' = products s
      \<and> (\<forall>k. find_customer k s' = None \<longleftrightarrow> find_customer k s = None)"
proof (cases "s' = s")
  case True
  then show ?thesis by simp
next
  case False
  with assms obtain cid p where
    r: "update_customer cid (\<lambda>cu. cu\<lparr>cu_points := cu_points cu - p\<rparr>) s = Some s'"
    by (auto simp: redeem_points_def split: option.splits if_splits)
  from update_customer_frame [OF r] show ?thesis by simp
qed

lemma redeem_points_insufficient:
  assumes "find_customer cid s = Some cu" and "cu_points cu < pu"
  shows "redeem_points (Some cid) (Some pu) s = Some s"
  using assms by (simp add: redeem_points_def)

lemma accrued_id [simp]: "cu_id (accrued amount c) = cu_id c"
  by (simp add: accrued_def Let_def)

lemma accrue_points_frame:
  assumes "accrue_points c amount s = Some s'"
  shows "orders s' = orders s \<and> order_items s' = order_items s \<and> products s' = products s"
proof (cases "s' = s")
  case True
  then show ?thesis by simp
next
  case False
  with assms obtain cid where r: "update_customer cid (accrued amount) s = Some s'"
    by (auto simp: accrue_points_def split: option.splits if_splits)
  from update_customer_frame(1-3) [OF r] show ?thesis by simp
qed

lemma accrue_points_found:
  assumes "find_customer cid s = Some cu" "cid \<noteq> 0"
    and "int4 \<lfloor>amount / 100\<rfloor>" "customer_ints_fit (accrued amount cu)"
  shows "accrue_points (Some cid) amount s
       = Some (s\<lparr>customers := map (\<lambda>c. if cu_id c = cid then accrued amount c else c) (customers s)\<rparr>)"
  using assms by (simp add: accrue_points_def update_customer_def)


lemma counters_after_redeem:
  assumes "0 \<le> pts" "int4 pts" "int4 e" "int4 (pts + e)" "0 < p" "p \<le> pts"
  shows "int4 p" "int4 (pts - p)" "int4 (pts - p + e)"
  using assms by (simp_all add: int4_def)

lemma redeem_points_fits:
  assumes "customer_counters_fit c amount s"
  shows "\<exists>s'. redeem_points c pu s = Some s'
     \<and> (\<forall>cid cu'. c = Some cid \<longrightarrow> find_customer cid s' = Some cu' \<longrightarrow>
            int4 \<lfloor>amount / 100\<rfloor> \<and> customer_ints_fit (accrued amount cu'))"
proof (cases "redeem_points c pu s = Some s")
  case True
  have "\<forall>cid cu'. c = Some cid \<longrightarrow> find_customer cid s = Some cu' \<longrightarrow>
            int4 \<lfloor>amount / 100\<rfloor> \<and> customer_ints_fit (accrued amount cu')"
    using assms
    by (auto simp: customer_counters_fit_def counters_fit_def customer_ints_fit_def accrued_def Let_def)
  with True show ?thesis by blast
next
  case False
  then obtain cid p cu where c: "c = Some cid" "pu = Some p" "find_customer cid s = Some cu"
      and p: "0 < p" "p \<le> cu_points cu"
      and r: "redeem_points c pu s
              = (if int4 p then update_customer cid (\<lambda>cu. cu\<lparr>cu_points := cu_points cu - p\<rparr>) s
                 else None)"
    by (auto simp: redeem_points_def split: option.splits if_splits)
  from assms c have fit: "counters_fit amount cu"
    by (simp add: customer_counters_fit_def)
  from fit have parts: "0 \<le> cu_points cu" "int4 (cu_points cu)" "int4 \<lfloor>amount / 100\<rfloor>"
      "int4 (cu_points cu + \<lfloor>amount / 100\<rfloor>)" "int4 (cu_totalOrders cu)"
      "int4 (cu_totalOrders cu + 1)"
    by (simp_all add: counters_fit_def)
  note after = counters_after_redeem [OF parts(1-4) p]
  from after have p4: "int4 p" by simp
  from after parts have fit': "customer_ints_fit (cu\<lparr>cu_points := cu_points cu - p\<rparr>)"
    by (simp add: customer_ints_fit_def)
  let ?s' = "s\<lparr>customers := map (\<lambda>c. if cu_id c = cid then c\<lparr>cu_points := cu_points c - p\<rparr> else c)
                 (customers s)\<rparr>"
  have upd: "redeem_points c pu s = Some ?s'"
    using r p4
      update_customer_found [where f = "\<lambda>cu. cu\<lparr>cu_points := cu_points cu - p\<rparr>", OF c(3) fit']
    by simp
  have found: "find_customer cid ?s' = Some (cu\<lparr>cu_points := cu_points cu - p\<rparr>)"
    by (rule find_customer_updated [OF c(3)]) simp
  have "int4 \<lfloor>amount / 100\<rfloor> \<and> customer_ints_fit (accrued amount (cu\<lparr>cu_points := cu_points cu - p\<rparr>))"
    using after parts by (simp add: customer_ints_fit_def accrued_def Let_def)
  with upd found c(1) show ?thesis by auto
qed

lemma prisma_order_create_customers:
  assumes "prisma_order_create businessId tn cust amount pm et cart now s = Some (row, its, s1)"
  shows "customers s1 = customers s" "orders s1 = orders s @ [row]"
    "order_items s1 = order_items s @ its"
    "its = mk_items (next_order_id s) (next_item_id s) (\<lambda>_. ''Pending'') cart"
    "o_id row = next_order_id s" "o_status row = ''Pending''" "o_businessId row = businessId"
    "o_tableNumber row = tn" "o_estimatedTime row = Some et" "o_createdAt row = now"
    "products s1 = products s" "o_customerId row = cust"
  using assms by (auto simp: prisma_order_create_def Let_def split: if_splits)

lemma prisma_order_create_some:
  assumes "order_refs_exist s businessId cust cart" "order_ints_fit businessId cust tn cart"
  shows "\<exists>row its s1. prisma_order_create businessId tn cust amount pm et cart now s = Some (row, its, s1)"
  using assms by (simp add: prisma_order_create_def Let_def)

lemma create_order_success:
  assumes b: "cb_businessId b = Some businessId" "businessId \<noteq> 0"
      "cb_table_number b = Some tn" "tn \<noteq> 0"
      "cb_cart_items b = Some cart" "cart \<noteq> []"
      "cb_total_amount b = Some amount" "amount \<noteq> 0"
      "cb_payment_method b = Some pm" "pm \<noteq> []"
      "cb_estimated_time b = Some et" "et \<noteq> []"
    and refs: "order_refs_exist s businessId (customer_of_bearer auth) cart"
    and ints: "order_ints_fit businessId (customer_of_bearer auth) tn cart"
    and meta: "metadata_usable s cart"
    and fits: "customer_counters_fit (customer_of_bearer auth) amount s"
  shows "\<exists>row its s1 s2 s3.
      prisma_order_create businessId tn (customer_of_bearer auth) amount pm et cart now s
        = Some (row, its, s1)
    \<and> redeem_points (customer_of_bearer auth) (cb_pointsUsed b) s1 = Some s2
    \<and> accrue_points (customer_of_bearer auth) amount s2 = Some s3
    \<and> fst (deduct_inventory businessId cart s3) = True
    \<and> orders s3 = orders s1 \<and> order_items s3 = order_items s1
    \<and> create_order auth b now s =
         ((201, Payload \<lparr>cr_order_id = format_order_id (o_id row),
                          cr_table_number = o_tableNumber row, cr_status = o_status row,
                          cr_message = ''Order placed successfully'',
                          cr_estimated_time = o_estimatedTime row,
                          cr_created_at = o_createdAt row, cr_items = its\<rparr>),
          snd (deduct_inventory businessId cart s3))"
proof -
  let ?cust = "customer_of_bearer auth"
  from prisma_order_create_some [OF refs ints] obtain row its s1
    where cr: "prisma_order_create businessId tn ?cust amount pm et cart now s = Some (row, its, s1)"
    by blast
  note pc = prisma_order_create_customers [OF cr]
  have same: "\<And>k. find_customer k s1 = find_customer k s"
    using pc(1) by (simp add: find_customer_def)
  have fits1: "customer_counters_fit ?cust amount s1"
    using fits by (auto simp: customer_counters_fit_def same split: option.splits)
  from redeem_points_fits [OF fits1, of "cb_pointsUsed b"] obtain s2
    where s2: "redeem_points ?cust (cb_pointsUsed b) s1 = Some s2"
      and ready: "\<And>cid cu'. ?cust = Some cid \<Longrightarrow> find_customer cid s2 = Some cu' \<Longrightarrow>
            int4 \<lfloor>amount / 100\<rfloor> \<and> customer_ints_fit (accrued amount cu')"
    by blast
  note f2 = redeem_points_frame [OF s2]
  have "\<exists>s3. accrue_points ?cust amount s2 = Some s3"
  proof (cases ?cust)
    case None
    then show ?thesis by (simp add: accrue_points_def)
  next
    case (Some cid)
    with refs have "find_customer cid s \<noteq> None" by (simp add: order_refs_exist_def)
    then have "find_customer cid s2 \<noteq> None" using f2 same by simp
    then obtain cu' where cu': "find_customer cid s2 = Some cu'" by blast
    show ?thesis
    proof (cases "cid = 0")
      case True
      then show ?thesis using Some by (simp add: accrue_points_def)
    next
      case False
      from ready [OF Some cu'] accrue_points_found [OF cu' False, of amount] Some
      show ?thesis by simp
    qed
  qed
  then obtain s3 where s3: "accrue_points ?cust amount s2 = Some s3" by blast
  note f3 = accrue_points_frame [OF s3]
  have "products s3 = products s" using f3 f2 pc(11) by simp
  then have "metadata_usable s3 cart" using meta metadata_usable_same [of s3 s cart] by simp
  then have ran: "fst (deduct_inventory businessId cart s3) = True"
    by (rule deduct_inventory_done)
  then obtain s4 where s4: "deduct_inventory businessId cart s3 = (True, s4)"
    by (cases "deduct_inventory businessId cart s3") simp
  have "create_order auth b now s =
         ((201, Payload \<lparr>cr_order_id = format_order_id (o_id row),
                          cr_table_number = o_tableNumber row, cr_status = o_status row,
                          cr_message = ''Order placed successfully'',
                          cr_estimated_time = o_estimatedTime row,
                          cr_created_at = o_createdAt row, cr_items = its\<rparr>),
          snd (deduct_inventory businessId cart s3))"
    using b cr s2 s3 s4
    by (simp add: create_order_def truthy_num_def truthy_str_def Let_def)
  with cr s2 s3 ran f2 f3 show ?thesis by auto
qed

subsection \<open>Order creation\<close>

lemmas create_defs = create_order_def customer_of_bearer_def truthy_num_def truthy_str_def
  prisma_order_create_def order_refs_exist_def products_exist_def order_ints_fit_def
  cart_ints_fit_def int4_def find_product_def find_customer_def update_customer_def
  customer_ints_fit_def redeem_points_def accrue_points_def accrued_def decrement_inventory_def
  format_order_id_digits digit_char_def Let_def







lemma create_rejects_int4:
  "create_order NoBearer
     ((demo_body None)\<lparr>cb_cart_items := Some [\<lparr>cart_productId = 1, cart_quantity = 2147483648,
                                                cart_price = 100, cart_name = ''X'',
                                                cart_status = None\<rparr>]\<rparr>) 0 demo_store
   = ((500, Message ''Server error while creating order''), demo_store)"
  by (simp add: create_defs create_failed_def demo_body_def demo_store_def)

lemma create_throws_on_metadata:
  "fst (create_order NoBearer (demo_body None) 0
          (demo_store\<lparr>products := [\<lparr>p_id = 1, p_businessId = 1, p_name = ''Thali'', p_price = 120,
                                      p_ingredients = NotIterable\<rparr>]\<rparr>))
   = (500, Message ''Server error while creating order'')"
  by (simp add: create_defs create_failed_def demo_body_def demo_cart_def demo_store_def)

lemma deduct_inventory_eq:
  assumes "deduct_inventory b cart s = (ok, s')"
  shows "customers s' = customers s \<and> orders s' = orders s
       \<and> order_items s' = order_items s \<and> products s' = products s"
  using deduct_inventory_frame [of b cart s] assms by simp

lemma redeem_points_guest: "redeem_points None pu t = Some t"
  by (simp add: redeem_points_def truthy_num_def)

lemma accrue_points_guest: "accrue_points None amount t = Some t"
  by (simp add: accrue_points_def)

text \<open>
  Claim C6, where it fails. A verified token without an \<open>id\<close> claim, which is every token
  the login routes sign, makes the order a guest order: no customer row changes, so no
  points are accrued, and a row that is created carries no customer.
\<close>

theorem login_token_order_is_guest:
  assumes "tp_id p = None"
  shows "customers (snd (create_order (Verified p) b now s)) = customers s
     \<and> (orders (snd (create_order (Verified p) b now s)) = orders s
        \<or> (\<exists>row. orders (snd (create_order (Verified p) b now s)) = orders s @ [row]
                \<and> o_customerId row = None))"
proof -
  have cust: "customer_of_bearer (Verified p) = None"
    using assms by (simp add: customer_of_bearer_def)
  have 1: "customers (snd (create_order (Verified p) b now s)) = customers s"
    by (auto simp: create_order_def cust redeem_points_guest accrue_points_guest create_failed_def
        prisma_order_create_def Let_def
        split: option.splits prod.splits bool.splits if_splits dest: deduct_inventory_eq)
  have 2: "orders (snd (create_order (Verified p) b now s)) = orders s
        \<or> (\<exists>row. orders (snd (create_order (Verified p) b now s)) = orders s @ [row]
                \<and> o_customerId row = None)"
    by (auto simp: create_order_def cust redeem_points_guest accrue_points_guest create_failed_def
        prisma_order_create_def Let_def
        split: option.splits prod.splits bool.splits if_splits dest!: deduct_inventory_eq)
  from 1 2 show ?thesis by blast
qed

lemma login7_create:
  "create_order (Verified login7) (demo_body (Some 5)) 0 demo_store =
     ((201, Payload \<lparr>cr_order_id = ''ORD00001'', cr_table_number = 4, cr_status = ''Pending'',
                      cr_message = ''Order placed successfully'',
                      cr_estimated_time = Some ''15m'', cr_created_at = 0,
                      cr_items = [demo_item ''Pending'']\<rparr>),
      placed_store ''Pending'' [demo_item ''Pending''])"
  by (simp add: create_defs login7_def demo_body_def demo_cart_def demo_store_def demo_item_def
      placed_store_def demo_order_def)

theorem login_token_order_is_guest_witness:
  "tp_id login7 = None \<and> tp_customerId login7 = Some 7
   \<and> map cu_id (customers demo_store) = [7] \<and> map cu_points (customers demo_store) = [3]
   \<and> cb_pointsUsed (demo_body (Some 5)) = Some 5 \<and> cb_total_amount (demo_body (Some 5)) = Some 200
   \<and> create_order (Verified login7) (demo_body (Some 5)) 0 demo_store =
     ((201, Payload \<lparr>cr_order_id = ''ORD00001'', cr_table_number = 4, cr_status = ''Pending'',
                      cr_message = ''Order placed successfully'',
                      cr_estimated_time = Some ''15m'', cr_created_at = 0,
                      cr_items = [demo_item ''Pending'']\<rparr>),
      placed_store ''Pending'' [demo_item ''Pending''])
   \<and> map o_customerId (orders (placed_store ''Pending'' [demo_item ''Pending''])) = [None]
   \<and> map cu_points (customers (snd (create_order (Verified login7) (demo_body (Some 5)) 0 demo_store)))
       = [3]
   \<and> (3::int) + \<lfloor>(200::rat) / 100\<rfloor> = 5"
proof -
  have "customers (snd (create_order (Verified login7) (demo_body (Some 5)) 0 demo_store))
      = customers demo_store"
    using login_token_order_is_guest [of login7 "demo_body (Some 5)" 0 demo_store]
    by (simp add: login7_def)
  then have "map cu_points (customers (snd (create_order (Verified login7) (demo_body (Some 5)) 0
      demo_store))) = [3]"
    by (simp add: demo_store_def)
  then show ?thesis
    using login7_create
    by (simp add: login7_def demo_body_def)
       (simp add: demo_store_def placed_store_def demo_order_def)
qed


text \<open>
  For comparison, the path the handler intends: with a token that does carry the \<open>id\<close> of
  an existing customer and a redemption above the balance, the redemption step leaves
  the store as it is, the reply is 201 and the customer row receives the accrual.
\<close>

lemma attributed_insufficient_points:
  assumes b: "cb_businessId b = Some businessId" "businessId \<noteq> 0"
      "cb_table_number b = Some tn" "tn \<noteq> 0"
      "cb_cart_items b = Some cart" "cart \<noteq> []"
      "cb_total_amount b = Some amount" "amount \<noteq> 0"
      "cb_payment_method b = Some pm" "pm \<noteq> []"
      "cb_estimated_time b = Some et" "et \<noteq> []"
    and auth: "auth = Verified p" "tp_id p = Some cid" "cid \<noteq> 0"
    and cust: "find_customer cid s = Some cu" "counters_fit amount cu"
    and pts: "cb_pointsUsed b = Some pu" "cu_points cu < pu"
    and refs: "order_refs_exist s businessId (Some cid) cart"
    and ints: "order_ints_fit businessId (Some cid) tn cart"
    and meta: "metadata_usable s cart"
  shows "fst (fst (create_order auth b now s)) = 201
     \<and> customers (snd (create_order auth b now s))
         = map (\<lambda>c. if cu_id c = cid then accrued amount c else c) (customers s)
     \<and> cu_points (accrued amount cu) = cu_points cu + \<lfloor>amount / 100\<rfloor>"
proof -
  have cob: "customer_of_bearer auth = Some cid" using auth by (simp add: customer_of_bearer_def)
  have fits: "customer_counters_fit (customer_of_bearer auth) amount s"
    using cob cust by (simp add: customer_counters_fit_def)
  from create_order_success [OF b, of s auth now] refs ints meta fits cob obtain row its s1 s2 s3 where
      cr: "prisma_order_create businessId tn (Some cid) amount pm et cart now s = Some (row, its, s1)"
    and rd: "redeem_points (Some cid) (cb_pointsUsed b) s1 = Some s2"
    and ac: "accrue_points (Some cid) amount s2 = Some s3"
    and res: "create_order auth b now s =
         ((201, Payload \<lparr>cr_order_id = format_order_id (o_id row),
                          cr_table_number = o_tableNumber row, cr_status = o_status row,
                          cr_message = ''Order placed successfully'',
                          cr_estimated_time = o_estimatedTime row,
                          cr_created_at = o_createdAt row, cr_items = its\<rparr>),
          snd (deduct_inventory businessId cart s3))"
    by auto
  have cs1: "customers s1 = customers s" by (rule prisma_order_create_customers(1) [OF cr])
  then have f1: "find_customer cid s1 = Some cu" using cust(1) by (simp add: find_customer_def)
  have "s2 = s1" using rd redeem_points_insufficient [OF f1 pts(2)] pts(1) by simp
  moreover have "int4 \<lfloor>amount / 100\<rfloor>" "customer_ints_fit (accrued amount cu)"
    using cust(2) by (simp_all add: counters_fit_def customer_ints_fit_def accrued_def Let_def)
  ultimately have s3: "s3 = s1\<lparr>customers := map (\<lambda>c. if cu_id c = cid then accrued amount c else c)
      (customers s1)\<rparr>"
    using ac accrue_points_found [OF f1 auth(3), of amount] by simp
  have "customers (snd (create_order auth b now s))
         = map (\<lambda>c. if cu_id c = cid then accrued amount c else c) (customers s)"
    using res s3 cs1 by simp
  moreover have "cu_points (accrued amount cu) = cu_points cu + \<lfloor>amount / 100\<rfloor>"
    by (simp add: accrued_def Let_def)
  ultimately show ?thesis using res by simp
qed

subsection \<open>Order updates\<close>

lemma find_order_id: "find_order k s = Some row \<Longrightarrow> o_id row = k"
  by (auto simp: find_order_def dest: find_Some_iff [THEN iffD1])

lemma update_order_frame [simp]:
  "order_items (update_order oid f s) = order_items s"
  "items_of k (update_order oid f s) = items_of k s"
  "customers (update_order oid f s) = customers s"
  by (simp_all add: update_order_def items_of_def)

lemma find_order_update_order:
  assumes "find_order oid s = Some row" and "\<And>r. o_id (f r) = o_id r"
  shows "find_order oid (update_order oid f s) = Some (f row)"
proof -
  have "o_id row = oid" using assms(1) by (rule find_order_id)
  then show ?thesis
    using assms find_map_update [of o_id f oid oid "orders s"]
    by (simp add: find_order_def update_order_def)
qed

lemma updateMany_frame [simp]:
  "orders (updateMany_item_status sel st s) = orders s"
  "find_order k (updateMany_item_status sel st s) = find_order k s"
  by (simp_all add: updateMany_item_status_def find_order_def split: option.splits)

lemma items_of_updateMany:
  "items_of k (updateMany_item_status sel (Some v) s)
     = map (\<lambda>it. if sel it then it\<lparr>oi_status := v\<rparr> else it) (items_of k s)"
  by (simp add: items_of_def updateMany_item_status_def filter_map comp_def if_distrib cong: if_cong)

lemma update_order_statuses:
  "map o_status (orders (update_order oid (put_header b) s)) = map o_status (orders s)"
  by (simp add: update_order_def put_header_def comp_def if_distrib cong: if_cong)


lemmas owner_replies = authenticateBusinessOwnerJWT_def owner_forbidden_def owner_unauthorized_def

lemma patch_item_status_200:
  assumes "fst (fst (patch_item_status auth oid pid st s)) = 200"
  shows "\<exists>row. find_order oid s = Some row
     \<and> snd (patch_item_status auth oid pid st s)
       = update_order oid
           (\<lambda>r. r\<lparr>o_status := derive_status (items_of oid
                (updateMany_item_status (\<lambda>it. oi_orderId it = oid \<and> oi_productId it = pid) st s))\<rparr>)
           (updateMany_item_status (\<lambda>it. oi_orderId it = oid \<and> oi_productId it = pid) st s)"
  using assms
  by (auto simp: patch_item_status_def owner_replies Let_def
      split: bearer.splits option.splits if_splits)

lemma complete_all_200:
  assumes "fst (fst (complete_all auth oid s)) = 200"
  shows "\<exists>row. find_order oid s = Some row
     \<and> snd (complete_all auth oid s)
       = update_order oid (\<lambda>r. r\<lparr>o_status := ''Completed''\<rparr>)
           (updateMany_item_status (\<lambda>it. oi_orderId it = oid) (Some ''Completed'') s)"
  using assms
  by (auto simp: complete_all_def owner_replies Let_def
      split: bearer.splits option.splits if_splits)

lemma patch_order_status_200:
  assumes "fst (fst (patch_order_status auth oid st s)) = 200"
  shows "\<exists>row. find_order oid s = Some row
     \<and> snd (patch_order_status auth oid st s)
       = update_order oid
           (\<lambda>r. r\<lparr>o_status := (case st of None \<Rightarrow> o_status row | Some v \<Rightarrow> v)\<rparr>) s"
  using assms
  by (auto simp: patch_order_status_def owner_replies Let_def
      split: bearer.splits option.splits if_splits)

lemma put_order_statuses:
  "map o_status (orders (snd (put_order auth oid b s))) = map o_status (orders s)"
  by (simp add: put_order_def Let_def update_order_statuses split: option.splits)

lemma derive_status_all_completed:
  assumes "its \<noteq> []"
  shows "derive_status (map (\<lambda>it. it\<lparr>oi_status := ''Completed''\<rparr>) its) = ''Completed''"
  using assms by (simp add: derive_status_def list_all_iff)

lemma find_order_update_order_other:
  assumes "k \<noteq> oid" and "\<And>r. o_id (f r) = o_id r"
  shows "find_order k (update_order oid f s) = find_order k s"
proof (cases "find_order k s")
  case None
  then show ?thesis
    using find_map_update [of o_id f k oid "orders s"] assms(2)
    by (simp add: find_order_def update_order_def)
next
  case (Some row)
  then have "o_id row = k" by (rule find_order_id)
  then show ?thesis
    using Some assms find_map_update [of o_id f k oid "orders s"]
    by (simp add: find_order_def update_order_def)
qed

lemma bill_put_order_status_200:
  assumes "fst (fst (bill_put_order_status auth oid st s)) = 200"
  shows "\<exists>row. find_order oid s = Some row
     \<and> snd (bill_put_order_status auth oid st s)
       = update_order oid
           (\<lambda>r. r\<lparr>o_status := (case st of None \<Rightarrow> o_status r | Some v \<Rightarrow> v)\<rparr>) s"
  using assms
  by (auto simp: bill_put_order_status_def authenticateBusinessOwnerJWT_def Let_def
      split: bearer.splits option.splits if_splits)

lemma create_order_201:
  assumes "fst (fst (create_order auth b now s)) = 201"
  shows "\<exists>row. orders (snd (create_order auth b now s)) = orders s @ [row] \<and> o_status row = ''Pending''"
proof -
  from assms obtain businessId tn cart amount pm et row its s1 s2 s3 where
      cr: "prisma_order_create businessId tn (customer_of_bearer auth) amount pm et cart now s
             = Some (row, its, s1)"
    and rd: "redeem_points (customer_of_bearer auth) (cb_pointsUsed b) s1 = Some s2"
    and ac: "accrue_points (customer_of_bearer auth) amount s2 = Some s3"
    and res: "snd (create_order auth b now s) = snd (deduct_inventory businessId cart s3)"
    by (auto simp: create_order_def create_failed_def Let_def
        split: option.splits if_splits prod.splits bool.splits)
  have "orders s2 = orders s1" using redeem_points_frame [OF rd] by simp
  moreover have "orders s3 = orders s2" using accrue_points_frame [OF ac] by simp
  ultimately show ?thesis
    using res prisma_order_create_customers(2,6) [OF cr] by simp
qed

text \<open>The handlers evaluated on the order of the scenario.\<close>

lemmas demo_defs = placed_store_def demo_order_def demo_item_def demo_put_def demo_cart_def
  owner1_def owner2_def

lemmas handler_defs = authenticateBusinessOwnerJWT_def truthy_num_def truthy_str_def
  find_order_def items_of_def update_order_def updateMany_item_status_def derive_status_def
  owner_forbidden_def owner_unauthorized_def put_forbidden_def put_failed_def
  products_exist_def find_product_def cart_ints_fit_def int4_def put_header_def replaced_status_def
  format_order_id_digits digit_char_def Let_def

lemma complete_all_demo:
  "complete_all (Verified owner1) 1 (placed_store ''Pending'' [demo_item ''Pending''])
     = ((200, Payload \<lparr>cp_message = ''All items marked as completed successfully'',
                       cp_orderStatus = ''Completed''\<rparr>),
        placed_store ''Completed'' [demo_item ''Completed''])"
  by (simp add: complete_all_def demo_defs handler_defs)

lemma put_demo_completed:
  "put_order NoBearer 1 (demo_put (Some demo_cart)) (placed_store ''Completed'' [demo_item ''Completed''])
     = ((200, Payload \<lparr>up_order_id = ''ORD00001'', up_table_number = 4, up_total_amount = Some 200,
                       up_payment_method = ''cash'', up_status = ''Pending'',
                       up_estimated_time = Some ''15m'',
                       up_items = [(demo_item ''Completed'')\<lparr>oi_id := 2\<rparr>],
                       up_message = ''Order updated successfully''\<rparr>),
        (placed_store ''Completed'' [(demo_item ''Completed'')\<lparr>oi_id := 2\<rparr>])\<lparr>next_item_id := 3\<rparr>)"
  by (simp add: put_order_def demo_defs handler_defs)

lemma put_demo_empty:
  "put_order NoBearer 1 (demo_put (Some [])) (placed_store ''Pending'' [demo_item ''Pending''])
     = ((200, Payload \<lparr>up_order_id = ''ORD00001'', up_table_number = 4, up_total_amount = Some 200,
                       up_payment_method = ''cash'', up_status = ''Pending'',
                       up_estimated_time = Some ''15m'',
                       up_items = [],
                       up_message = ''Order updated successfully''\<rparr>),
        placed_store ''Pending'' [])"
  by (simp add: put_order_def demo_defs handler_defs)

lemma complete_all_empty:
  "complete_all (Verified owner1) 1 (placed_store ''Pending'' [])
     = ((200, Payload \<lparr>cp_message = ''All items marked as completed successfully'',
                       cp_orderStatus = ''Completed''\<rparr>),
        placed_store ''Completed'' [])"
  by (simp add: complete_all_def demo_defs handler_defs)

lemma get_order_empty:
  "get_order NoBearer 1 (placed_store ''Completed'' [])
     = (200, Payload \<lparr>fe_order_id = ''ORD00001'', fe_table_number = 4, fe_total_amount = Some 200,
                       fe_payment_method = ''cash'', fe_status = ''Pending'',
                       fe_estimated_time = Some ''15m'', fe_created_at = 0, fe_items = []\<rparr>)"
  by (simp add: get_order_def demo_defs handler_defs)

lemma patch_status_demo:
  "patch_order_status (Verified owner1) 1 (Some ''Completed'') (placed_store ''Pending'' [demo_item ''Pending''])
     = ((200, Payload \<lparr>sp_order_id = ''ORD00001'', sp_status = ''Completed'',
                       sp_message = ''Order status updated successfully''\<rparr>),
        placed_store ''Completed'' [demo_item ''Pending''])"
  by (simp add: patch_order_status_def demo_defs handler_defs)

lemma patch_item_demo:
  "patch_item_status (Verified owner1) 1 1 (Some ''Completed'') (placed_store ''Pending'' [demo_item ''Pending''])
     = ((200, Payload \<lparr>ip_message = ''Item status updated successfully'', ip_productId = 1,
                       ip_status = Some ''Completed'', ip_orderStatus = ''Completed''\<rparr>),
        placed_store ''Completed'' [demo_item ''Completed''])"
  by (simp add: patch_item_status_def demo_defs handler_defs)

lemma put_cross_tenant:
  "put_order (Verified owner2) 1 (demo_put (Some [])) (placed_store ''Pending'' [demo_item ''Pending''])
     = ((200, Payload \<lparr>up_order_id = ''ORD00001'', up_table_number = 4, up_total_amount = Some 200,
                       up_payment_method = ''cash'', up_status = ''Pending'',
                       up_estimated_time = Some ''15m'',
                       up_items = [],
                       up_message = ''Order updated successfully''\<rparr>),
        placed_store ''Pending'' [])"
  by (simp add: put_order_def demo_defs handler_defs)

lemma bill_put_demo:
  "bill_put_order_status (Verified owner1) 1 (Some ''Completed'')
       (placed_store ''Pending'' [demo_item ''Pending''])
     = ((200, Payload (demo_order ''Completed'')),
        placed_store ''Completed'' [demo_item ''Pending''])"
  by (simp add: bill_put_order_status_def demo_defs handler_defs)

subsection \<open>Order status and tenancy\<close>

text \<open>
  Claim C4. Creation stores Pending. The item-status route stores the status derived
  from the order's current items. Complete-all, on an order with at least one item,
  sets every item of the order to Completed and stores Completed, which is the derived
  status. The order-status route of the order router and the order-status route of the
  bill router store the status of the request body (or leave the stored one when the
  body has none) and do not touch the items, so the stored status can disagree with
  the derivation. Each of these writes reaches the addressed order only.
\<close>

theorem order_status_writers:
  "(fst (fst (create_order auth b now s)) = 201 \<longrightarrow>
      (\<exists>row. orders (snd (create_order auth b now s)) = orders s @ [row] \<and> o_status row = ''Pending''))
   \<and> (fst (fst (patch_item_status auth oid pid st s)) = 200 \<longrightarrow>
      (\<exists>row. find_order oid (snd (patch_item_status auth oid pid st s)) = Some row
         \<and> o_status row = derive_status (items_of oid (snd (patch_item_status auth oid pid st s))))
      \<and> (\<forall>k. k \<noteq> oid \<longrightarrow>
            find_order k (snd (patch_item_status auth oid pid st s)) = find_order k s))
   \<and> (fst (fst (complete_all auth oid s)) = 200 \<and> items_of oid s \<noteq> [] \<longrightarrow>
      (\<exists>row. find_order oid (snd (complete_all auth oid s)) = Some row
         \<and> o_status row = ''Completed''
         \<and> list_all (\<lambda>it. oi_status it = ''Completed'') (items_of oid (snd (complete_all auth oid s)))
         \<and> derive_status (items_of oid (snd (complete_all auth oid s))) = ''Completed'')
      \<and> (\<forall>k. k \<noteq> oid \<longrightarrow> find_order k (snd (complete_all auth oid s)) = find_order k s))
   \<and> (fst (fst (patch_order_status auth oid st s)) = 200 \<longrightarrow>
      (\<exists>old row. find_order oid s = Some old
         \<and> find_order oid (snd (patch_order_status auth oid st s)) = Some row
         \<and> o_status row = (case st of None \<Rightarrow> o_status old | Some v \<Rightarrow> v))
      \<and> order_items (snd (patch_order_status auth oid st s)) = order_items s
      \<and> (\<forall>k. k \<noteq> oid \<longrightarrow> find_order k (snd (patch_order_status auth oid st s)) = find_order k s))
   \<and> (fst (fst (bill_put_order_status auth oid st s)) = 200 \<longrightarrow>
      (\<exists>old row. find_order oid s = Some old
         \<and> find_order oid (snd (bill_put_order_status auth oid st s)) = Some row
         \<and> o_status row = (case st of None \<Rightarrow> o_status old | Some v \<Rightarrow> v))
      \<and> order_items (snd (bill_put_order_status auth oid st s)) = order_items s
      \<and> (\<forall>k. k \<noteq> oid \<longrightarrow>
            find_order k (snd (bill_put_order_status auth oid st s)) = find_order k s))"
proof -
  have a: "fst (fst (create_order auth b now s)) = 201 \<longrightarrow>
      (\<exists>row. orders (snd (create_order auth b now s)) = orders s @ [row] \<and> o_status row = ''Pending'')"
    using create_order_201 by blast
  have b: "fst (fst (patch_item_status auth oid pid st s)) = 200 \<longrightarrow>
      (\<exists>row. find_order oid (snd (patch_item_status auth oid pid st s)) = Some row
         \<and> o_status row = derive_status (items_of oid (snd (patch_item_status auth oid pid st s))))
      \<and> (\<forall>k. k \<noteq> oid \<longrightarrow>
            find_order k (snd (patch_item_status auth oid pid st s)) = find_order k s)"
  proof
    assume "fst (fst (patch_item_status auth oid pid st s)) = 200"
    from patch_item_status_200 [OF this] obtain row where
      row: "find_order oid s = Some row" and
      res: "snd (patch_item_status auth oid pid st s)
       = update_order oid
           (\<lambda>r. r\<lparr>o_status := derive_status (items_of oid
                (updateMany_item_status (\<lambda>it. oi_orderId it = oid \<and> oi_productId it = pid) st s))\<rparr>)
           (updateMany_item_status (\<lambda>it. oi_orderId it = oid \<and> oi_productId it = pid) st s)"
      by blast
    let ?s1 = "updateMany_item_status (\<lambda>it. oi_orderId it = oid \<and> oi_productId it = pid) st s"
    have "find_order oid ?s1 = Some row" using row by simp
    then have "find_order oid (update_order oid (\<lambda>r. r\<lparr>o_status := derive_status (items_of oid ?s1)\<rparr>) ?s1)
        = Some (row\<lparr>o_status := derive_status (items_of oid ?s1)\<rparr>)"
      by (rule find_order_update_order) simp
    moreover have "\<forall>k. k \<noteq> oid \<longrightarrow>
        find_order k (update_order oid (\<lambda>r. r\<lparr>o_status := derive_status (items_of oid ?s1)\<rparr>) ?s1)
          = find_order k s"
      by (simp add: find_order_update_order_other)
    ultimately show "(\<exists>row. find_order oid (snd (patch_item_status auth oid pid st s)) = Some row
         \<and> o_status row = derive_status (items_of oid (snd (patch_item_status auth oid pid st s))))
      \<and> (\<forall>k. k \<noteq> oid \<longrightarrow>
            find_order k (snd (patch_item_status auth oid pid st s)) = find_order k s)"
      by (simp add: res)
  qed
  have c: "fst (fst (complete_all auth oid s)) = 200 \<and> items_of oid s \<noteq> [] \<longrightarrow>
      (\<exists>row. find_order oid (snd (complete_all auth oid s)) = Some row
         \<and> o_status row = ''Completed''
         \<and> list_all (\<lambda>it. oi_status it = ''Completed'') (items_of oid (snd (complete_all auth oid s)))
         \<and> derive_status (items_of oid (snd (complete_all auth oid s))) = ''Completed'')
      \<and> (\<forall>k. k \<noteq> oid \<longrightarrow> find_order k (snd (complete_all auth oid s)) = find_order k s)"
  proof
    assume h: "fst (fst (complete_all auth oid s)) = 200 \<and> items_of oid s \<noteq> []"
    then have ok: "fst (fst (complete_all auth oid s)) = 200" and ne: "items_of oid s \<noteq> []" by simp_all
    from complete_all_200 [OF ok] obtain row where
      row: "find_order oid s = Some row" and
      res: "snd (complete_all auth oid s)
       = update_order oid (\<lambda>r. r\<lparr>o_status := ''Completed''\<rparr>)
           (updateMany_item_status (\<lambda>it. oi_orderId it = oid) (Some ''Completed'') s)"
      by blast
    let ?s1 = "updateMany_item_status (\<lambda>it. oi_orderId it = oid) (Some ''Completed'') s"
    have "find_order oid ?s1 = Some row" using row by simp
    then have f: "find_order oid (update_order oid (\<lambda>r. r\<lparr>o_status := ''Completed''\<rparr>) ?s1)
        = Some (row\<lparr>o_status := ''Completed''\<rparr>)"
      by (rule find_order_update_order) simp
    have others: "\<forall>k. k \<noteq> oid \<longrightarrow>
        find_order k (update_order oid (\<lambda>r. r\<lparr>o_status := ''Completed''\<rparr>) ?s1) = find_order k s"
      by (simp add: find_order_update_order_other)
    have "items_of oid ?s1 = map (\<lambda>it. it\<lparr>oi_status := ''Completed''\<rparr>) (items_of oid s)"
      by (simp add: items_of_updateMany) (simp add: items_of_def cong: map_cong)
    then have its: "items_of oid (snd (complete_all auth oid s))
        = map (\<lambda>it. it\<lparr>oi_status := ''Completed''\<rparr>) (items_of oid s)"
      by (simp add: res)
    have "list_all (\<lambda>it. oi_status it = ''Completed'') (items_of oid (snd (complete_all auth oid s)))"
      by (simp add: its list_all_iff)
    moreover have "derive_status (items_of oid (snd (complete_all auth oid s))) = ''Completed''"
      using ne by (simp add: its derive_status_all_completed)
    ultimately show "(\<exists>row. find_order oid (snd (complete_all auth oid s)) = Some row
         \<and> o_status row = ''Completed''
         \<and> list_all (\<lambda>it. oi_status it = ''Completed'') (items_of oid (snd (complete_all auth oid s)))
         \<and> derive_status (items_of oid (snd (complete_all auth oid s))) = ''Completed'')
      \<and> (\<forall>k. k \<noteq> oid \<longrightarrow> find_order k (snd (complete_all auth oid s)) = find_order k s)"
      using f others by (simp add: res)
  qed
  have d: "fst (fst (patch_order_status auth oid st s)) = 200 \<longrightarrow>
      (\<exists>old row. find_order oid s = Some old
         \<and> find_order oid (snd (patch_order_status auth oid st s)) = Some row
         \<and> o_status row = (case st of None \<Rightarrow> o_status old | Some v \<Rightarrow> v))
      \<and> order_items (snd (patch_order_status auth oid st s)) = order_items s
      \<and> (\<forall>k. k \<noteq> oid \<longrightarrow> find_order k (snd (patch_order_status auth oid st s)) = find_order k s)"
  proof
    assume "fst (fst (patch_order_status auth oid st s)) = 200"
    from patch_order_status_200 [OF this] obtain old where
      old: "find_order oid s = Some old" and
      res: "snd (patch_order_status auth oid st s)
       = update_order oid
           (\<lambda>r. r\<lparr>o_status := (case st of None \<Rightarrow> o_status old | Some v \<Rightarrow> v)\<rparr>) s"
      by blast
    from old have "find_order oid (update_order oid
           (\<lambda>r. r\<lparr>o_status := (case st of None \<Rightarrow> o_status old | Some v \<Rightarrow> v)\<rparr>) s)
        = Some (old\<lparr>o_status := (case st of None \<Rightarrow> o_status old | Some v \<Rightarrow> v)\<rparr>)"
      by (rule find_order_update_order) simp
    then show "(\<exists>old row. find_order oid s = Some old
         \<and> find_order oid (snd (patch_order_status auth oid st s)) = Some row
         \<and> o_status row = (case st of None \<Rightarrow> o_status old | Some v \<Rightarrow> v))
      \<and> order_items (snd (patch_order_status auth oid st s)) = order_items s
      \<and> (\<forall>k. k \<noteq> oid \<longrightarrow> find_order k (snd (patch_order_status auth oid st s)) = find_order k s)"
      using old by (simp add: res find_order_update_order_other)
  qed
  have e: "fst (fst (bill_put_order_status auth oid st s)) = 200 \<longrightarrow>
      (\<exists>old row. find_order oid s = Some old
         \<and> find_order oid (snd (bill_put_order_status auth oid st s)) = Some row
         \<and> o_status row = (case st of None \<Rightarrow> o_status old | Some v \<Rightarrow> v))
      \<and> order_items (snd (bill_put_order_status auth oid st s)) = order_items s
      \<and> (\<forall>k. k \<noteq> oid \<longrightarrow>
            find_order k (snd (bill_put_order_status auth oid st s)) = find_order k s)"
  proof
    assume "fst (fst (bill_put_order_status auth oid st s)) = 200"
    from bill_put_order_status_200 [OF this] obtain old where
      old: "find_order oid s = Some old" and
      res: "snd (bill_put_order_status auth oid st s)
       = update_order oid
           (\<lambda>r. r\<lparr>o_status := (case st of None \<Rightarrow> o_status r | Some v \<Rightarrow> v)\<rparr>) s"
      by blast
    from old have "find_order oid (update_order oid
           (\<lambda>r. r\<lparr>o_status := (case st of None \<Rightarrow> o_status r | Some v \<Rightarrow> v)\<rparr>) s)
        = Some (old\<lparr>o_status := (case st of None \<Rightarrow> o_status old | Some v \<Rightarrow> v)\<rparr>)"
      by (rule find_order_update_order) simp
    then show "(\<exists>old row. find_order oid s = Some old
         \<and> find_order oid (snd (bill_put_order_status auth oid st s)) = Some row
         \<and> o_status row = (case st of None \<Rightarrow> o_status old | Some v \<Rightarrow> v))
      \<and> order_items (snd (bill_put_order_status auth oid st s)) = order_items s
      \<and> (\<forall>k. k \<noteq> oid \<longrightarrow>
            find_order k (snd (bill_put_order_status auth oid st s)) = find_order k s)"
      using old by (simp add: res find_order_update_order_other)
  qed
  from a b c d e show ?thesis by blast
qed

lemma create_on_placed:
  "fst (fst (create_order (Verified owner1) (demo_body None) 0
               (placed_store ''Pending'' [demo_item ''Pending'']))) = 201"
  by (simp add: create_defs demo_body_def demo_cart_def placed_store_def owner1_def)

lemma items_of_placed: "items_of 1 (placed_store st its) = filter (\<lambda>it. oi_orderId it = 1) its"
  by (simp add: items_of_def placed_store_def)

lemma find_order_placed: "find_order 1 (placed_store st its) = Some (demo_order st)"
  by (simp add: find_order_def placed_store_def demo_order_def)

theorem order_status_writers_witness:
  "fst (fst (create_order (Verified owner1) (demo_body None) 0
               (placed_store ''Pending'' [demo_item ''Pending'']))) = 201
   \<and> fst (fst (patch_item_status (Verified owner1) 1 1 (Some ''Completed'')
               (placed_store ''Pending'' [demo_item ''Pending'']))) = 200
   \<and> fst (fst (complete_all (Verified owner1) 1 (placed_store ''Pending'' [demo_item ''Pending'']))) = 200
   \<and> items_of 1 (placed_store ''Pending'' [demo_item ''Pending'']) \<noteq> []
   \<and> fst (fst (patch_order_status (Verified owner1) 1 (Some ''Completed'')
               (placed_store ''Pending'' [demo_item ''Pending'']))) = 200
   \<and> fst (fst (bill_put_order_status (Verified owner1) 1 (Some ''Completed'')
               (placed_store ''Pending'' [demo_item ''Pending'']))) = 200
   \<and> (\<exists>row. orders (snd (create_order (Verified owner1) (demo_body None) 0
                  (placed_store ''Pending'' [demo_item ''Pending''])))
          = orders (placed_store ''Pending'' [demo_item ''Pending'']) @ [row]
        \<and> o_status row = ''Pending'')
   \<and> derive_status (items_of 1 (snd (complete_all (Verified owner1) 1
          (placed_store ''Pending'' [demo_item ''Pending'']))))
      = ''Completed''
   \<and> order_items (snd (patch_order_status (Verified owner1) 1 (Some ''Completed'')
          (placed_store ''Pending'' [demo_item ''Pending''])))
      = order_items (placed_store ''Pending'' [demo_item ''Pending''])
   \<and> order_items (snd (bill_put_order_status (Verified owner1) 1 (Some ''Completed'')
          (placed_store ''Pending'' [demo_item ''Pending''])))
      = order_items (placed_store ''Pending'' [demo_item ''Pending''])"
proof -
  note inst = order_status_writers [of "Verified owner1" "demo_body None" 0
      "placed_store ''Pending'' [demo_item ''Pending'']" 1 1 "Some ''Completed''"]
  have h1: "fst (fst (create_order (Verified owner1) (demo_body None) 0
               (placed_store ''Pending'' [demo_item ''Pending'']))) = 201"
    by (rule create_on_placed)
  have h2: "fst (fst (patch_item_status (Verified owner1) 1 1 (Some ''Completed'')
               (placed_store ''Pending'' [demo_item ''Pending'']))) = 200"
    by (simp add: patch_item_demo)
  have h3: "fst (fst (complete_all (Verified owner1) 1
               (placed_store ''Pending'' [demo_item ''Pending'']))) = 200"
    by (simp add: complete_all_demo)
  have h3': "items_of 1 (placed_store ''Pending'' [demo_item ''Pending'']) \<noteq> []"
    by (simp add: items_of_placed demo_item_def)
  have h4: "fst (fst (patch_order_status (Verified owner1) 1 (Some ''Completed'')
               (placed_store ''Pending'' [demo_item ''Pending'']))) = 200"
    by (simp add: patch_status_demo)
  have h5: "fst (fst (bill_put_order_status (Verified owner1) 1 (Some ''Completed'')
               (placed_store ''Pending'' [demo_item ''Pending'']))) = 200"
    by (simp add: bill_put_demo)
  from inst h1 have c1: "\<exists>row. orders (snd (create_order (Verified owner1) (demo_body None) 0
                  (placed_store ''Pending'' [demo_item ''Pending''])))
          = orders (placed_store ''Pending'' [demo_item ''Pending'']) @ [row]
        \<and> o_status row = ''Pending''"
    by blast
  from inst h3 h3' have c3: "derive_status (items_of 1 (snd (complete_all (Verified owner1) 1
          (placed_store ''Pending'' [demo_item ''Pending'']))))
      = ''Completed''"
    by blast
  from inst h4 have c5: "order_items (snd (patch_order_status (Verified owner1) 1 (Some ''Completed'')
          (placed_store ''Pending'' [demo_item ''Pending''])))
      = order_items (placed_store ''Pending'' [demo_item ''Pending''])"
    by blast
  from inst h5 have c6: "order_items (snd (bill_put_order_status (Verified owner1) 1 (Some ''Completed'')
          (placed_store ''Pending'' [demo_item ''Pending''])))
      = order_items (placed_store ''Pending'' [demo_item ''Pending''])"
    by blast
  from h1 h2 h3 h3' h4 h5 c1 c3 c5 c6 show ?thesis by (intro conjI)
qed

text \<open>
  The order-status route on the scenario's order, whose only item is Pending: the header
  becomes Completed, the item stays Pending, and the derived status is Pending.
\<close>

theorem patch_order_status_independent_counterexample:
  "patch_order_status (Verified owner1) 1 (Some ''Completed'')
       (placed_store ''Pending'' [demo_item ''Pending''])
     = ((200, Payload \<lparr>sp_order_id = ''ORD00001'', sp_status = ''Completed'',
                       sp_message = ''Order status updated successfully''\<rparr>),
        placed_store ''Completed'' [demo_item ''Pending''])
   \<and> find_order 1 (placed_store ''Completed'' [demo_item ''Pending'']) = Some (demo_order ''Completed'')
   \<and> o_status (demo_order ''Completed'') = ''Completed''
   \<and> items_of 1 (placed_store ''Completed'' [demo_item ''Pending'']) = [demo_item ''Pending'']
   \<and> oi_status (demo_item ''Pending'') = ''Pending''
   \<and> derive_status (items_of 1 (placed_store ''Completed'' [demo_item ''Pending''])) = ''Pending''"
  by (simp add: patch_status_demo find_order_placed items_of_placed)
     (simp add: demo_item_def demo_order_def derive_status_def)

text \<open>
  Claim C3. For an existing order: the three owner routes (order status, item status,
  complete all) answer a caller whose token names another tenant with 403 and leave the
  store unchanged, and answer a request without a verified token with 401 or 403 and
  leave the store unchanged. The order update reads no token: it answers 403 and leaves
  the store unchanged when the \<open>businessId\<close> of the request body differs from the order's.
\<close>

theorem order_mutations_tenant_check:
  assumes "find_order orderId s = Some row"
  shows "(tp_businessId p = Some tenant \<and> tenant \<noteq> 0 \<and> o_businessId row \<noteq> tenant \<longrightarrow>
            patch_order_status (Verified p) orderId status s = (owner_forbidden, s)
          \<and> patch_item_status (Verified p) orderId productId status s = (owner_forbidden, s)
          \<and> complete_all (Verified p) orderId s = (owner_forbidden, s))
       \<and> ((\<forall>q. auth \<noteq> Verified q) \<longrightarrow>
            fst (fst (patch_order_status auth orderId status s)) \<in> {401, 403}
          \<and> snd (patch_order_status auth orderId status s) = s
          \<and> fst (fst (patch_item_status auth orderId productId status s)) \<in> {401, 403}
          \<and> snd (patch_item_status auth orderId productId status s) = s
          \<and> fst (fst (complete_all auth orderId s)) \<in> {401, 403}
          \<and> snd (complete_all auth orderId s) = s)
       \<and> (pb_businessId b = Some bodyTenant \<and> bodyTenant \<noteq> 0 \<and> o_businessId row \<noteq> bodyTenant \<longrightarrow>
            put_order auth orderId b s = (put_forbidden, s))"
proof -
  have 1: "tp_businessId p = Some tenant \<and> tenant \<noteq> 0 \<and> o_businessId row \<noteq> tenant \<longrightarrow>
            patch_order_status (Verified p) orderId status s = (owner_forbidden, s)
          \<and> patch_item_status (Verified p) orderId productId status s = (owner_forbidden, s)
          \<and> complete_all (Verified p) orderId s = (owner_forbidden, s)"
    using assms
    by (simp add: patch_order_status_def patch_item_status_def complete_all_def
        authenticateBusinessOwnerJWT_def truthy_num_def)
  have 2: "(\<forall>q. auth \<noteq> Verified q) \<longrightarrow>
            fst (fst (patch_order_status auth orderId status s)) \<in> {401, 403}
          \<and> snd (patch_order_status auth orderId status s) = s
          \<and> fst (fst (patch_item_status auth orderId productId status s)) \<in> {401, 403}
          \<and> snd (patch_item_status auth orderId productId status s) = s
          \<and> fst (fst (complete_all auth orderId s)) \<in> {401, 403}
          \<and> snd (complete_all auth orderId s) = s"
    by (cases auth)
       (simp_all add: patch_order_status_def patch_item_status_def complete_all_def
          authenticateBusinessOwnerJWT_def)
  have 3: "pb_businessId b = Some bodyTenant \<and> bodyTenant \<noteq> 0 \<and> o_businessId row \<noteq> bodyTenant \<longrightarrow>
            put_order auth orderId b s = (put_forbidden, s)"
    using assms by (simp add: put_order_def truthy_num_def)
  from 1 2 3 show ?thesis by blast
qed

theorem order_mutations_tenant_check_witness:
  "find_order 1 (placed_store ''Pending'' [demo_item ''Pending'']) = Some (demo_order ''Pending'')
   \<and> o_businessId (demo_order ''Pending'') = 1 \<and> tp_businessId owner2 = Some 2
   \<and> patch_order_status (Verified owner2) 1 (Some ''Completed'')
        (placed_store ''Pending'' [demo_item ''Pending''])
      = ((403, Message ''Not allowed to update this order''), placed_store ''Pending'' [demo_item ''Pending''])
   \<and> patch_item_status (Verified owner2) 1 1 (Some ''Completed'')
        (placed_store ''Pending'' [demo_item ''Pending''])
      = ((403, Message ''Not allowed to update this order''), placed_store ''Pending'' [demo_item ''Pending''])
   \<and> complete_all (Verified owner2) 1 (placed_store ''Pending'' [demo_item ''Pending''])
      = ((403, Message ''Not allowed to update this order''), placed_store ''Pending'' [demo_item ''Pending''])
   \<and> snd (complete_all NoBearer 1 (placed_store ''Pending'' [demo_item ''Pending'']))
      = placed_store ''Pending'' [demo_item ''Pending'']
   \<and> put_order NoBearer 1 ((demo_put (Some []))\<lparr>pb_businessId := Some 2\<rparr>)
        (placed_store ''Pending'' [demo_item ''Pending''])
      = ((403, Message ''Not allowed to update this order''), placed_store ''Pending'' [demo_item ''Pending''])"
  using order_mutations_tenant_check [where orderId = 1 and s = "placed_store ''Pending'' [demo_item ''Pending'']"
      and row = "demo_order ''Pending''" and p = owner2 and tenant = 2 and auth = NoBearer
      and b = "(demo_put (Some []))\<lparr>pb_businessId := Some 2\<rparr>" and bodyTenant = 2
      and status = "Some ''Completed''" and productId = 1]
    find_order_placed [of "''Pending''" "[demo_item ''Pending'']"]
  by (simp add: owner_forbidden_def put_forbidden_def demo_order_def owner2_def demo_put_def)

text \<open>
  A caller whose token names tenant 2 updates the order of tenant 1 by sending
  \<open>businessId = 1\<close> in the body: the reply is 200 and the order's items are gone.
\<close>

theorem put_order_cross_tenant_counterexample:
  "tp_businessId owner2 = Some 2
   \<and> find_order 1 (placed_store ''Pending'' [demo_item ''Pending'']) = Some (demo_order ''Pending'')
   \<and> o_businessId (demo_order ''Pending'') = 1
   \<and> put_order (Verified owner2) 1 (demo_put (Some [])) (placed_store ''Pending'' [demo_item ''Pending''])
     = ((200, Payload \<lparr>up_order_id = ''ORD00001'', up_table_number = 4, up_total_amount = Some 200,
                       up_payment_method = ''cash'', up_status = ''Pending'',
                       up_estimated_time = Some ''15m'',
                       up_items = [],
                       up_message = ''Order updated successfully''\<rparr>),
        placed_store ''Pending'' [])
   \<and> order_items (placed_store ''Pending'' []) \<noteq> order_items (placed_store ''Pending'' [demo_item ''Pending''])"
  by (simp add: put_cross_tenant find_order_placed)
     (simp add: owner2_def demo_order_def placed_store_def)

text \<open>
  Claim C1, evaluated where it fails. The order of the scenario is emptied by an order
  update with an empty cart; complete-all on it then replies 200 and stores Completed,
  while the order has no items and the derivation gives Pending.
\<close>

theorem complete_all_empty_order_completed:
  "put_order NoBearer 1 (demo_put (Some [])) (placed_store ''Pending'' [demo_item ''Pending''])
     = ((200, Payload \<lparr>up_order_id = ''ORD00001'', up_table_number = 4, up_total_amount = Some 200,
                       up_payment_method = ''cash'', up_status = ''Pending'',
                       up_estimated_time = Some ''15m'', up_items = [],
                       up_message = ''Order updated successfully''\<rparr>),
        placed_store ''Pending'' [])
   \<and> complete_all (Verified owner1) 1 (placed_store ''Pending'' [])
     = ((200, Payload \<lparr>cp_message = ''All items marked as completed successfully'',
                       cp_orderStatus = ''Completed''\<rparr>),
        placed_store ''Completed'' [])
   \<and> find_order 1 (placed_store ''Completed'' []) = Some (demo_order ''Completed'')
   \<and> o_status (demo_order ''Completed'') = ''Completed''
   \<and> items_of 1 (placed_store ''Completed'' []) = []
   \<and> derive_status (items_of 1 (placed_store ''Completed'' [])) = ''Pending''"
  by (simp add: put_demo_empty complete_all_empty find_order_placed items_of_placed)
     (simp add: demo_order_def derive_status_def)

text \<open>
  Claim C7, evaluated where it fails. The order of the scenario is completed by
  complete-all and then updated: the reply says Pending, the stored header status is
  still Completed.
\<close>

theorem put_order_keeps_stored_status:
  "complete_all (Verified owner1) 1 (placed_store ''Pending'' [demo_item ''Pending''])
     = ((200, Payload \<lparr>cp_message = ''All items marked as completed successfully'',
                       cp_orderStatus = ''Completed''\<rparr>),
        placed_store ''Completed'' [demo_item ''Completed''])
   \<and> put_order NoBearer 1 (demo_put (Some demo_cart)) (placed_store ''Completed'' [demo_item ''Completed''])
     = ((200, Payload \<lparr>up_order_id = ''ORD00001'', up_table_number = 4, up_total_amount = Some 200,
                       up_payment_method = ''cash'', up_status = ''Pending'',
                       up_estimated_time = Some ''15m'',
                       up_items = [(demo_item ''Completed'')\<lparr>oi_id := 2\<rparr>],
                       up_message = ''Order updated successfully''\<rparr>),
        (placed_store ''Completed'' [(demo_item ''Completed'')\<lparr>oi_id := 2\<rparr>])\<lparr>next_item_id := 3\<rparr>)
   \<and> find_order 1 ((placed_store ''Completed'' [(demo_item ''Completed'')\<lparr>oi_id := 2\<rparr>])\<lparr>next_item_id := 3\<rparr>)
       = Some (demo_order ''Completed'')
   \<and> o_status (demo_order ''Completed'') = ''Completed''"
  by (simp add: complete_all_demo put_demo_completed)
     (simp add: find_order_def placed_store_def demo_order_def)

lemma get_order_cross_tenant_example:
  "get_order (Verified owner2) 1 (placed_store ''Pending'' [demo_item ''Pending''])
     = (200, Payload \<lparr>fe_order_id = ''ORD00001'', fe_table_number = 4, fe_total_amount = Some 200,
                       fe_payment_method = ''cash'', fe_status = ''Pending'',
                       fe_estimated_time = Some ''15m'', fe_created_at = 0,
                       fe_items = [demo_item ''Pending'']\<rparr>)"
  by (simp add: get_order_def demo_defs handler_defs)

end
